theory Spec2Isabelle
  imports Main "HOL-Library.Word" "HOL-Library.AList" "HOL-Library.Sublist"
begin

section \<open>Session manager: \<open>sessions_t\<close> of flight_server.cpp\<close>

text \<open>
  Identifiers are 64-bit (\<open>base_id_t = std::uint64_t\<close>). The engine's handles
  \<open>ustore_transaction_t\<close> and \<open>ustore_arena_t\<close> are opaque pointers: they are
  modelled as addresses, \<open>0\<close> being \<open>nullptr\<close>. A \<open>sys_time_t\<close> is a point of
  \<open>std::chrono::system_clock\<close>, counted in ticks of one nanosecond since the epoch.
\<close>

type_synonym base_id_t = "64 word"
type_synonym ustore_transaction_t = nat
type_synonym ustore_arena_t = nat
type_synonym sys_time_t = int

record session_id_t =
  client_id :: base_id_t
  txn_id :: base_id_t

record running_txn_t =
  txn :: ustore_transaction_t
  arena :: ustore_arena_t
  last_access :: sys_time_t
  executing :: bool

text \<open>
  \<open>log_error_m (c_error, code, message)\<close> stores an error of the given code and
  message. \<open>Deref_end\<close> is no error of the program: it marks the one place where the
  code dereferences the past-the-end iterator of the session map (\<open>pop\<close> on an empty
  map), which has no defined result.
\<close>

datatype error_code = args_wrong_k | error_unknown_k

datatype failure = Logged error_code string | Deref_end

text \<open>
  The session map is a \<open>std::unordered_map\<close>. It is modelled as an association list
  with distinct keys; the order of the list is the iteration order of the map, which
  \<open>std::min_element\<close> in \<open>pop\<close> depends on. The free stacks are
  \<open>std::vector\<close>s: \<open>push_back\<close> appends, \<open>back\<close> is \<open>last\<close>,
  \<open>pop_back\<close> is \<open>butlast\<close>.
\<close>

record sessions_t =
  free_arenas :: "ustore_arena_t list"
  free_txns :: "ustore_transaction_t list"
  client_to_txn :: "(session_id_t \<times> running_txn_t) list"
  milliseconds_timeout :: nat

text \<open>The constructor \<open>sessions_t (db, n)\<close>: both stacks hold \<open>n\<close> null handles.\<close>

definition sessions_init :: "nat \<Rightarrow> sessions_t" where
  "sessions_init n =
     \<lparr>free_arenas = replicate n 0, free_txns = replicate n 0,
      client_to_txn = [], milliseconds_timeout = 30000\<rparr>"

text \<open>
  \<open>std::min_element (first, last, comp)\<close>: the past-the-end iterator (\<open>None\<close>) on an
  empty range, otherwise the loop
  \<^verbatim>\<open>smallest = first; while (++first != last) if (comp (*first, *smallest)) smallest = first;\<close>
\<close>

fun min_element_loop :: "('a \<Rightarrow> 'a \<Rightarrow> bool) \<Rightarrow> 'a \<Rightarrow> 'a list \<Rightarrow> 'a" where
  "min_element_loop cmp smallest [] = smallest"
| "min_element_loop cmp smallest (x # xs) =
     min_element_loop cmp (if cmp x smallest then x else smallest) xs"

definition min_element :: "('a \<Rightarrow> 'a \<Rightarrow> bool) \<Rightarrow> 'a list \<Rightarrow> 'a option" where
  "min_element cmp xs =
     (case xs of [] \<Rightarrow> None | x # xs' \<Rightarrow> Some (min_element_loop cmp x xs'))"

text \<open>The comparison that \<open>pop\<close> hands to \<open>std::min_element\<close>.\<close>

definition pop_comp ::
  "session_id_t \<times> running_txn_t \<Rightarrow> session_id_t \<times> running_txn_t \<Rightarrow> bool" where
  "pop_comp left right =
     (last_access (snd left) < last_access (snd right) \<and> \<not> executing (snd left))"

text \<open>
  \<open>std::chrono::duration_cast<std::chrono::milliseconds>\<close> of a number of nanoseconds:
  integer division that truncates toward zero.
\<close>

definition duration_cast_milliseconds :: "int \<Rightarrow> int" where
  "duration_cast_milliseconds d =
     (if d < 0 then - ((- d) div 1000000) else d div 1000000)"

text \<open>
  \<open>sessions_t::pop\<close>. The age is \<open>last_access - now\<close>, as the code writes it. In
  \<open>age.count() < milliseconds_timeout\<close> the left operand is a signed 64-bit count and
  the right one a \<open>std::size_t\<close>; on an LP64 platform the usual arithmetic conversions
  turn the count into an unsigned 64-bit value, which is its residue modulo \<open>2 ^ 64\<close>.
  Every operation takes the reading \<open>now\<close> of the clock as an argument.
\<close>

definition pop :: "sys_time_t \<Rightarrow> sessions_t \<Rightarrow> (failure + running_txn_t) \<times> sessions_t" where
  "pop now st =
     (case min_element pop_comp (client_to_txn st) of
        None \<Rightarrow> (Inl Deref_end, st)
      | Some it \<Rightarrow>
          let age = duration_cast_milliseconds (last_access (snd it) - now) in
          if age mod 2 ^ 64 < int (milliseconds_timeout st) \<or> executing (snd it)
          then (Inl (Logged error_unknown_k ''Too many concurrent sessions''), st)
          else (Inr ((snd it)\<lparr>executing := False\<rparr>),
                st\<lparr>client_to_txn := AList.delete (fst it) (client_to_txn st)\<rparr>))"

text \<open>
  \<open>std::unordered_map::insert_or_assign\<close>: the value of a key that is in the map is
  assigned in place; a key that is not in the map gets a new entry. The standard
  leaves open where a new entry stands in the iteration order; the model puts it
  first, where the hash table of libstdc++ links a node whose bucket is empty. The
  invariants proved below speak of the entries of the map and of their number, not of
  their order.
\<close>

definition insert_or_assign :: "'k \<Rightarrow> 'v \<Rightarrow> ('k \<times> 'v) list \<Rightarrow> ('k \<times> 'v) list" where
  "insert_or_assign k v al =
     (case map_of al k of None \<Rightarrow> (k, v) # al | Some old \<Rightarrow> AList.update k v al)"

text \<open>\<open>sessions_t::submit\<close> and \<open>sessions_t::hold_txn\<close>.\<close>

definition submit :: "session_id_t \<Rightarrow> running_txn_t \<Rightarrow> sessions_t \<Rightarrow> sessions_t" where
  "submit session_id running_txn st =
     st\<lparr>client_to_txn :=
          insert_or_assign session_id (running_txn\<lparr>executing := False\<rparr>) (client_to_txn st)\<rparr>"

definition hold_txn :: "session_id_t \<Rightarrow> running_txn_t \<Rightarrow> sessions_t \<Rightarrow> sessions_t" where
  "hold_txn session_id running_txn st = submit session_id running_txn st"

text \<open>\<open>sessions_t::continue_txn\<close>; \<open>running\<close> is a reference into the map.\<close>

definition continue_txn ::
  "session_id_t \<Rightarrow> sys_time_t \<Rightarrow> sessions_t \<Rightarrow> (failure + running_txn_t) \<times> sessions_t" where
  "continue_txn session_id now st =
     (case map_of (client_to_txn st) session_id of
        None \<Rightarrow>
          (Inl (Logged args_wrong_k ''Transaction was terminated, start a new one''), st)
      | Some running \<Rightarrow>
          if executing running
          then (Inl (Logged args_wrong_k ''Transaction can't be modified concurrently.''), st)
          else let running' = running\<lparr>executing := True, last_access := now\<rparr>
               in (Inr running',
                   st\<lparr>client_to_txn := AList.update session_id running' (client_to_txn st)\<rparr>))"

text \<open>\<open>sessions_t::request_txn\<close>.\<close>

definition request_txn ::
  "session_id_t \<Rightarrow> sys_time_t \<Rightarrow> sessions_t \<Rightarrow> (failure + running_txn_t) \<times> sessions_t" where
  "request_txn session_id now st =
     (if map_of (client_to_txn st) session_id \<noteq> None
      then (Inl (Logged args_wrong_k
                   ''Such transaction is already running, just continue using it.''), st)
      else if free_txns st = [] \<or> free_arenas st = []
      then (case pop now st of
              (Inl e, st') \<Rightarrow> (Inl e, st')
            | (Inr running, st') \<Rightarrow>
                (Inr (running\<lparr>executing := True, last_access := now\<rparr>), st'))
      else (Inr \<lparr>txn = last (free_txns st), arena = last (free_arenas st),
                 last_access = now, executing = True\<rparr>,
            st\<lparr>free_arenas := butlast (free_arenas st),
               free_txns := butlast (free_txns st)\<rparr>))"

text \<open>
  The two overloads of \<open>sessions_t::release_txn\<close>: by record
  (\<open>release_txn (running_txn_t)\<close>) and by session id (\<open>release_txn (session_id_t)\<close>).
\<close>

definition release_txn_record :: "running_txn_t \<Rightarrow> sessions_t \<Rightarrow> sessions_t" where
  "release_txn_record running_txn st =
     st\<lparr>free_arenas := free_arenas st @ [arena running_txn],
        free_txns := free_txns st @ [txn running_txn]\<rparr>"

definition release_txn :: "session_id_t \<Rightarrow> sessions_t \<Rightarrow> sessions_t" where
  "release_txn session_id st =
     (case map_of (client_to_txn st) session_id of
        None \<Rightarrow> st
      | Some running \<Rightarrow>
          st\<lparr>free_arenas := free_arenas st @ [arena running],
             free_txns := free_txns st @ [txn running],
             client_to_txn := AList.delete session_id (client_to_txn st)\<rparr>)"

text \<open>\<open>sessions_t::request_arena\<close> and \<open>sessions_t::release_arena\<close>.\<close>

definition request_arena ::
  "sys_time_t \<Rightarrow> sessions_t \<Rightarrow> (failure + ustore_arena_t) \<times> sessions_t" where
  "request_arena now st =
     (if free_arenas st = []
      then (case pop now st of
              (Inl e, st') \<Rightarrow> (Inl e, st')
            | (Inr running, st') \<Rightarrow>
                (Inr (arena running), st'\<lparr>free_txns := free_txns st' @ [txn running]\<rparr>))
      else (Inr (last (free_arenas st)), st\<lparr>free_arenas := butlast (free_arenas st)\<rparr>))"

definition release_arena :: "ustore_arena_t \<Rightarrow> sessions_t \<Rightarrow> sessions_t" where
  "release_arena a st = st\<lparr>free_arenas := free_arenas st @ [a]\<rparr>"

text \<open>
  \<open>session_lock_t\<close>, \<open>sessions_t::lock\<close> and the destructor
  \<open>session_lock_t::~session_lock_t\<close>. A failed \<open>continue_txn\<close> or
  \<open>request_arena\<close> returns a value-initialised record or a null arena, which
  \<open>lock\<close> stores in the lock it returns; the error is returned beside it.
\<close>

record session_lock_t =
  lock_session_id :: session_id_t
  lock_txn :: ustore_transaction_t
  lock_arena :: ustore_arena_t

definition lock ::
  "session_id_t \<Rightarrow> sys_time_t \<Rightarrow> sessions_t \<Rightarrow> (failure option \<times> session_lock_t) \<times> sessions_t" where
  "lock sid now st =
     (if txn_id sid \<noteq> 0
      then (case continue_txn sid now st of
              (Inl e, st') \<Rightarrow>
                ((Some e, \<lparr>lock_session_id = sid, lock_txn = 0, lock_arena = 0\<rparr>), st')
            | (Inr running, st') \<Rightarrow>
                ((None, \<lparr>lock_session_id = sid, lock_txn = txn running,
                         lock_arena = arena running\<rparr>), st'))
      else (case request_arena now st of
              (Inl e, st') \<Rightarrow>
                ((Some e, \<lparr>lock_session_id = sid, lock_txn = 0, lock_arena = 0\<rparr>), st')
            | (Inr a, st') \<Rightarrow>
                ((None, \<lparr>lock_session_id = sid, lock_txn = 0, lock_arena = a\<rparr>), st')))"

definition session_lock_dtor :: "session_lock_t \<Rightarrow> sys_time_t \<Rightarrow> sessions_t \<Rightarrow> sessions_t" where
  "session_lock_dtor lk now st =
     (if lock_txn lk \<noteq> 0
      then hold_txn (lock_session_id lk)
             \<lparr>txn = lock_txn lk, arena = lock_arena lk, last_access = now, executing = True\<rparr> st
      else release_arena (lock_arena lk) st)"

section \<open>Sequences of calls on the session manager\<close>

text \<open>
  A call of one of the public operations, with its arguments and the reading of the
  clock. \<open>step\<close> is the state after the call, \<open>None\<close> when the call dereferences the
  past-the-end iterator; \<open>run\<close> makes the calls of a list one after the other.
\<close>

datatype call =
    Request_txn session_id_t sys_time_t
  | Continue_txn session_id_t sys_time_t
  | Hold_txn session_id_t running_txn_t
  | Release_txn session_id_t
  | Release_txn_record running_txn_t

fun step :: "call \<Rightarrow> sessions_t \<Rightarrow> sessions_t option" where
  "step (Request_txn sid now) st =
     (case request_txn sid now st of
        (Inl Deref_end, st') \<Rightarrow> None
      | (Inl (Logged c m), st') \<Rightarrow> Some st'
      | (Inr running, st') \<Rightarrow> Some st')"
| "step (Continue_txn sid now) st = Some (snd (continue_txn sid now st))"
| "step (Hold_txn sid running) st = Some (hold_txn sid running st)"
| "step (Release_txn sid) st = Some (release_txn sid st)"
| "step (Release_txn_record running) st = Some (release_txn_record running st)"

fun run :: "sessions_t \<Rightarrow> call list \<Rightarrow> sessions_t option" where
  "run st [] = Some st"
| "run st (c # cs) = (case step c st of None \<Rightarrow> None | Some st' \<Rightarrow> run st' cs)"

text \<open>
  The session ids that a dispatcher has borrowed: a successful \<open>continue_txn\<close>
  borrows the session, \<open>hold_txn\<close> and \<open>release_txn\<close> of that id end the loan.
\<close>

fun borrowed_step :: "call \<Rightarrow> sessions_t \<Rightarrow> session_id_t set \<Rightarrow> session_id_t set" where
  "borrowed_step (Continue_txn sid now) st B =
     (case fst (continue_txn sid now st) of Inl e \<Rightarrow> B | Inr running \<Rightarrow> insert sid B)"
| "borrowed_step (Hold_txn sid running) st B = B - {sid}"
| "borrowed_step (Release_txn sid) st B = B - {sid}"
| "borrowed_step (Request_txn sid now) st B = B"
| "borrowed_step (Release_txn_record running) st B = B"

fun run_borrowed ::
  "sessions_t \<Rightarrow> session_id_t set \<Rightarrow> call list \<Rightarrow> (sessions_t \<times> session_id_t set) option" where
  "run_borrowed st B [] = Some (st, B)"
| "run_borrowed st B (c # cs) =
     (case step c st of
        None \<Rightarrow> None
      | Some st' \<Rightarrow> run_borrowed st' (borrowed_step c st B) cs)"

text \<open>
  The calling discipline of the handlers, read along a list of calls from a state: a
  successful \<open>request_txn\<close> is followed at once by \<open>hold_txn\<close> of the same id or by
  the release of the record (\<open>release_txn (running_txn_t)\<close>); any other
  \<open>hold_txn\<close> stores into a session that is in the map; a record is released only
  after the \<open>request_txn\<close> that handed it out.
\<close>

fun disciplined :: "sessions_t \<Rightarrow> call list \<Rightarrow> bool" where
  "disciplined st [] = True"
| "disciplined st (Request_txn sid now # cs) =
     (case request_txn sid now st of
        (Inl e, st') \<Rightarrow> disciplined st' cs
      | (Inr running, st') \<Rightarrow>
          (case cs of
             [] \<Rightarrow> False
           | Hold_txn sid' running' # cs' \<Rightarrow>
               sid' = sid \<and> disciplined (hold_txn sid' running' st') cs'
           | Release_txn_record running' # cs' \<Rightarrow>
               disciplined (release_txn_record running' st') cs'
           | Request_txn sid' now' # cs' \<Rightarrow> False
           | Continue_txn sid' now' # cs' \<Rightarrow> False
           | Release_txn sid' # cs' \<Rightarrow> False))"
| "disciplined st (Continue_txn sid now # cs) =
     disciplined (snd (continue_txn sid now st)) cs"
| "disciplined st (Hold_txn sid running # cs) =
     (map_of (client_to_txn st) sid \<noteq> None \<and> disciplined (hold_txn sid running st) cs)"
| "disciplined st (Release_txn sid # cs) = disciplined (release_txn sid st) cs"
| "disciplined st (Release_txn_record running # cs) = False"

section \<open>The transaction actions of \<open>UStoreService::DoAction\<close>\<close>

text \<open>
  A \<open>std::string_view\<close> is either the value-initialised view \<open>std::string_view {}\<close>,
  whose \<open>data ()\<close> is null, or a view of characters of the query. Reads outside the
  query and through the null pointer have no defined result; they are the two values
  of \<open>read_error\<close>.
\<close>

datatype string_view = Null_view | View string

datatype read_error = Out_of_bounds | Null_pointer

text \<open>
  \<open>session_params_t\<close>, with the two fields that the transaction actions read: the
  session id and the text of the \<open>txn\<close> parameter. \<open>ar_status\<close> is the
  \<open>arrow::Status\<close> that a handler returns.
\<close>

record session_params_t =
  session_id :: session_id_t
  transaction_id :: "string_view option"

datatype ar_status = OK | Invalid string | ExecutionError string | NotImplemented string

text \<open>\<open>status.message ()\<close> of a logged error.\<close>

fun status_message :: "failure \<Rightarrow> string" where
  "status_message (Logged c m) = m"
| "status_message Deref_end = []"

text \<open>\<open>is_query (uri, name)\<close>, by which \<open>DoAction\<close> chooses the branch of a command.\<close>

definition is_query :: "string \<Rightarrow> string \<Rightarrow> bool" where
  "is_query uri name =
     (if length name < length uri
      then take (length name) uri = name \<and> uri ! length name = CHR ''?''
      else uri = name)"

text \<open>
  Modelled from the spec: the verb names \<open>kFlightTxnBegin\<close> and
  \<open>kFlightTxnCommit\<close> are declared in a header that is not part of the sources;
  the spec gives the verbs \<open>txn_begin\<close> and \<open>txn_commit\<close>.
\<close>

definition kFlightTxnBegin :: string where
  "kFlightTxnBegin = ''txn_begin''"

definition kFlightTxnCommit :: string where
  "kFlightTxnCommit = ''txn_commit''"

text \<open>
  The \<open>txn_begin\<close> branch of \<open>DoAction\<close>. \<open>rand_value\<close> is what \<open>std::rand ()\<close>
  returns; the engine's \<open>ustore_transaction_init\<close> is given by its outcome: the
  error message it reports, if any, and the handle it leaves in \<open>session.txn\<close>. The
  result is the status, the scalar sent back, and the session manager afterwards;
  \<open>None\<close> when \<open>request_txn\<close> dereferences the past-the-end iterator.
\<close>

definition DoAction_txn_begin ::
  "session_params_t \<Rightarrow> nat \<Rightarrow> string option \<Rightarrow> ustore_transaction_t \<Rightarrow> sys_time_t
     \<Rightarrow> sessions_t \<Rightarrow> ((ar_status \<times> base_id_t option) \<times> sessions_t) option" where
  "DoAction_txn_begin params rand_value init_error init_txn now st =
     (let sid = (if transaction_id params = None
                 then (session_id params)\<lparr>txn_id := of_nat rand_value\<rparr>
                 else session_id params)
      in case request_txn sid now st of
           (Inl Deref_end, st1) \<Rightarrow> None
         | (Inl (Logged c m), st1) \<Rightarrow> Some ((ExecutionError m, None), st1)
         | (Inr session, st1) \<Rightarrow>
             (case init_error of
                Some m \<Rightarrow> Some ((ExecutionError m, None), release_txn sid st1)
              | None \<Rightarrow>
                  Some ((OK, Some (txn_id sid)),
                        hold_txn sid (session\<lparr>txn := init_txn\<rparr>) st1)))"

text \<open>
  The \<open>txn_commit\<close> branch of \<open>DoAction\<close>. The engine's
  \<open>ustore_transaction_commit\<close> is given by the error message it reports, if any.
\<close>

definition DoAction_txn_commit ::
  "session_params_t \<Rightarrow> string option \<Rightarrow> sys_time_t \<Rightarrow> sessions_t
     \<Rightarrow> (ar_status \<times> base_id_t option) \<times> sessions_t" where
  "DoAction_txn_commit params commit_error now st =
     (if transaction_id params = None
      then ((Invalid ''Missing transaction ID argument'', None), st)
      else case continue_txn (session_id params) now st of
             (Inl e, st1) \<Rightarrow>
               ((ExecutionError (status_message e), None),
                release_txn (session_id params) st1)
           | (Inr session, st1) \<Rightarrow>
               (case commit_error of
                  Some m \<Rightarrow>
                    ((ExecutionError m, None), release_txn (session_id params) st1)
                | None \<Rightarrow> ((OK, None), release_txn (session_id params) st1)))"

section \<open>URI parameters: \<open>param_value\<close>, \<open>parse_u64_hex\<close>, \<open>session_params\<close>\<close>

text \<open>
  \<open>std::search (first, last, s_first, s_last)\<close> on the characters from \<open>first\<close>:
  the offset of the first occurrence of the pattern, or the length of the range when
  there is none.
\<close>

fun search :: "string \<Rightarrow> string \<Rightarrow> nat" where
  "search [] pat = 0"
| "search (x # xs) pat = (if prefix pat (x # xs) then 0 else Suc (search xs pat))"

text \<open>
  The loop of \<open>param_value\<close>, from the position \<open>start\<close> of \<open>key_begin\<close>.
  \<open>key_begin\<close> never passes the end of the query, so \<open>key_begin == end\<close> is
  \<open>length query_params \<le> key_begin\<close>. The test \<open>is_suffix\<close> comes before the
  look at the previous character, as in the code; \<open>*(key_begin - 1)\<close> at the first
  character of the query reads before the view.
\<close>

function param_value_from :: "string \<Rightarrow> string \<Rightarrow> nat \<Rightarrow> read_error + string_view option" where
  "param_value_from query_params param_name start =
     (let key_begin = start + search (drop start query_params) param_name in
      if length query_params \<le> key_begin then Inr None
      else if key_begin + length param_name = length query_params then Inr (Some Null_view)
      else if key_begin = 0 then Inl Out_of_bounds
      else
        let prev_character = query_params ! (key_begin - 1) in
        if prev_character \<noteq> CHR ''?'' \<and> prev_character \<noteq> CHR ''&''
           \<and> prev_character \<noteq> CHR ''/''
        then param_value_from query_params param_name (key_begin + 1)
        else
          let next_character = query_params ! (key_begin + length param_name) in
          if next_character = CHR ''&'' then Inr (Some Null_view)
          else if next_character = CHR ''=''
          then Inr (Some (View (takeWhile (\<lambda>c. c \<noteq> CHR ''&'')
                      (drop (key_begin + length param_name + 1) query_params))))
          else param_value_from query_params param_name (key_begin + 1))"
  by pat_completeness auto
termination
  by (relation "measure (\<lambda>(q, n, start). length q - start)") auto

definition param_value :: "string \<Rightarrow> string \<Rightarrow> read_error + string_view option" where
  "param_value query_params param_name = param_value_from query_params param_name 0"

text \<open>
  The two kinds of match that \<open>param_value\<close> can report for the name \<open>k\<close> at the
  position \<open>i\<close> of the query \<open>q\<close>: the name ends the query, or it stands after
  \<open>?\<close>, \<open>&\<close> or \<open>/\<close> and before \<open>&\<close> or \<open>=\<close>. \<open>v\<close> is the view returned.
\<close>

definition matched_at :: "string \<Rightarrow> string \<Rightarrow> nat \<Rightarrow> string_view \<Rightarrow> bool" where
  "matched_at q k i v \<longleftrightarrow>
     i < length q \<and> prefix k (drop i q) \<and>
     (i + length k = length q \<and> v = Null_view
      \<or> 0 < i \<and> q ! (i - 1) \<in> {CHR ''?'', CHR ''&'', CHR ''/''} \<and>
        (q ! (i + length k) = CHR ''&'' \<and> v = Null_view
         \<or> q ! (i + length k) = CHR ''='' \<and>
           v = View (takeWhile (\<lambda>c. c \<noteq> CHR ''&'') (drop (i + length k + 1) q))))"

text \<open>
  \<open>std::strtoull (nptr, &end, 16)\<close> of the C library, on the characters of a view:
  the value and the number of characters consumed (\<open>end - nptr\<close>). It skips white
  space, takes an optional sign and an optional \<open>0x\<close> or \<open>0X\<close> that a hexadecimal
  digit follows, then the longest run of hexadecimal digits; without a digit nothing is
  converted and nothing consumed; a value above \<open>ULLONG_MAX\<close> gives \<open>ULLONG_MAX\<close>, a
  minus sign negates modulo \<open>2 ^ 64\<close>. Every view that \<open>param_value\<close> returns ends
  at a \<open>&\<close> or at the end of the command string, which a null character follows, so
  \<open>strtoull\<close> never reads past the view.
\<close>

definition isspace :: "char \<Rightarrow> bool" where
  "isspace c \<longleftrightarrow> c \<in> set [CHR '' '', CHR 0x09, CHR 0x0A, CHR 0x0B, CHR 0x0C, CHR 0x0D]"

definition hex_digit :: "char \<Rightarrow> nat option" where
  "hex_digit c =
     (let n = (of_char c :: nat) in
      if 48 \<le> n \<and> n \<le> 57 then Some (n - 48)
      else if 97 \<le> n \<and> n \<le> 102 then Some (n - 87)
      else if 65 \<le> n \<and> n \<le> 70 then Some (n - 55)
      else None)"

definition is_xdigit :: "char \<Rightarrow> bool" where
  "is_xdigit c \<longleftrightarrow> hex_digit c \<noteq> None"

definition strtoull16 :: "string \<Rightarrow> 64 word \<times> nat" where
  "strtoull16 str =
     (let spaces = takeWhile isspace str;
          s1 = dropWhile isspace str;
          negative = (case s1 of [] \<Rightarrow> False | c # cs \<Rightarrow> c = CHR ''-'');
          sign_len = (case s1 of [] \<Rightarrow> 0
                      | c # cs \<Rightarrow> if c = CHR ''-'' \<or> c = CHR ''+'' then 1 else 0);
          s2 = drop sign_len s1;
          prefix_len = (case s2 of
                          z # x # d # cs \<Rightarrow>
                            if z = CHR ''0'' \<and> (x = CHR ''x'' \<or> x = CHR ''X'') \<and> is_xdigit d
                            then 2 else 0
                        | _ \<Rightarrow> 0);
          digits = takeWhile is_xdigit (drop prefix_len s2);
          v = foldl (\<lambda>a c. case hex_digit c of None \<Rightarrow> a | Some d \<Rightarrow> 16 * a + d) 0 digits
      in if digits = [] then (0, 0)
         else (if 2 ^ 64 \<le> v then - 1 else if negative then - of_nat v else of_nat v,
               length spaces + sign_len + prefix_len + length digits))"

text \<open>
  \<open>parse_u64_hex (str, default_)\<close> and \<open>parse_txn_id\<close>. On the value-initialised
  view \<open>str.data ()\<close> is null and \<open>strtoull\<close> reads through it.
\<close>

definition parse_u64_hex :: "string_view \<Rightarrow> base_id_t \<Rightarrow> read_error + base_id_t" where
  "parse_u64_hex str default_value =
     (case str of
        Null_view \<Rightarrow> Inl Null_pointer
      | View s \<Rightarrow>
          (case strtoull16 s of
             (result, consumed) \<Rightarrow>
               Inr (if consumed \<noteq> length s then default_value else result)))"

definition parse_txn_id :: "string_view \<Rightarrow> read_error + base_id_t" where
  "parse_txn_id str = parse_u64_hex str 0"

text \<open>
  Modelled from the spec: the name of the transaction parameter,
  \<open>kParamTransactionID\<close>, is declared in a header that is not part of the sources;
  the spec names the parameter \<open>txn\<close>.
\<close>

definition kParamTransactionID :: string where
  "kParamTransactionID = ''txn''"

text \<open>\<open>uri.find ('?')\<close>: the position of the first \<open>?\<close>, \<open>None\<close> for \<open>npos\<close>.\<close>

definition find_char :: "char \<Rightarrow> string \<Rightarrow> nat option" where
  "find_char c uri =
     (let n = length (takeWhile (\<lambda>x. x \<noteq> c) uri) in if n = length uri then None else Some n)"

text \<open>
  \<open>session_params\<close>, for the two fields of \<open>session_params_t\<close> above; \<open>client\<close>
  is the result of \<open>parse_client_id\<close>, a hash of the peer's address.
\<close>

definition session_params :: "base_id_t \<Rightarrow> string \<Rightarrow> read_error + session_params_t" where
  "session_params client uri =
     (case find_char CHR ''?'' uri of
        None \<Rightarrow>
          Inr \<lparr>session_id = \<lparr>client_id = client, txn_id = 0\<rparr>, transaction_id = None\<rparr>
      | Some params_offs \<Rightarrow>
          (case param_value (drop params_offs uri) kParamTransactionID of
             Inl e \<Rightarrow> Inl e
           | Inr None \<Rightarrow>
               Inr \<lparr>session_id = \<lparr>client_id = client, txn_id = 0\<rparr>, transaction_id = None\<rparr>
           | Inr (Some v) \<Rightarrow>
               (case parse_txn_id v of
                  Inl e \<Rightarrow> Inl e
                | Inr t \<Rightarrow>
                    Inr \<lparr>session_id = \<lparr>client_id = client, txn_id = t\<rparr>,
                         transaction_id = Some v\<rparr>)))"

section \<open>Columnar export: arrow.h\<close>

text \<open>
  Modelled from the spec: the enumeration \<open>ustore_doc_field_type_t\<close> is declared in
  \<open>ustore/docs.h\<close>, which is not part of the sources. Its enumerators are those that
  \<open>ustore_doc_field_type_to_arrow_format\<close> names, the column types of the spec;
  \<open>ustore_doc_field_other_k\<close> stands for any other value of the type, which takes
  the \<open>default\<close> branch of a \<open>switch\<close>.
\<close>

datatype ustore_doc_field_type_t =
    ustore_doc_field_null_k | ustore_doc_field_bool_k | ustore_doc_field_uuid_k
  | ustore_doc_field_i8_k | ustore_doc_field_i16_k | ustore_doc_field_i32_k
  | ustore_doc_field_i64_k | ustore_doc_field_u8_k | ustore_doc_field_u16_k
  | ustore_doc_field_u32_k | ustore_doc_field_u64_k | ustore_doc_field_f16_k
  | ustore_doc_field_f32_k | ustore_doc_field_f64_k | ustore_doc_field_bin_k
  | ustore_doc_field_str_k | ustore_doc_field_other_k

fun ustore_doc_field_type_to_arrow_format :: "ustore_doc_field_type_t \<Rightarrow> string" where
  "ustore_doc_field_type_to_arrow_format ustore_doc_field_null_k = ''n''"
| "ustore_doc_field_type_to_arrow_format ustore_doc_field_bool_k = ''b''"
| "ustore_doc_field_type_to_arrow_format ustore_doc_field_uuid_k = ''w:16''"
| "ustore_doc_field_type_to_arrow_format ustore_doc_field_i8_k = ''c''"
| "ustore_doc_field_type_to_arrow_format ustore_doc_field_i16_k = ''s''"
| "ustore_doc_field_type_to_arrow_format ustore_doc_field_i32_k = ''i''"
| "ustore_doc_field_type_to_arrow_format ustore_doc_field_i64_k = ''l''"
| "ustore_doc_field_type_to_arrow_format ustore_doc_field_u8_k = ''C''"
| "ustore_doc_field_type_to_arrow_format ustore_doc_field_u16_k = ''S''"
| "ustore_doc_field_type_to_arrow_format ustore_doc_field_u32_k = ''I''"
| "ustore_doc_field_type_to_arrow_format ustore_doc_field_u64_k = ''L''"
| "ustore_doc_field_type_to_arrow_format ustore_doc_field_f16_k = ''e''"
| "ustore_doc_field_type_to_arrow_format ustore_doc_field_f32_k = ''f''"
| "ustore_doc_field_type_to_arrow_format ustore_doc_field_f64_k = ''g''"
| "ustore_doc_field_type_to_arrow_format ustore_doc_field_bin_k = ''z''"
| "ustore_doc_field_type_to_arrow_format ustore_doc_field_str_k = ''u''"
| "ustore_doc_field_type_to_arrow_format ustore_doc_field_other_k = []"

text \<open>
  Modelled from the spec: the integer types \<open>ustore_size_t\<close> and
  \<open>ustore_length_t\<close> are declared in a header that is not part of the sources.
  Sizes are taken as unsigned 64-bit integers, which arrow.h casts to \<open>int64_t\<close>;
  lengths and offsets are unsigned 32-bit integers, as the spec says of offsets.
\<close>

type_synonym ustore_size_t = "64 word"
type_synonym ustore_length_t = "32 word"

text \<open>
  \<open>struct ArrowSchema\<close> and \<open>struct ArrowArray\<close>. A pointer to a buffer is an
  address, \<open>0\<close> being \<open>NULL\<close>; the child lists hold the children themselves, \<open>None\<close>
  for a child that is allocated and not yet filled in. The integers are \<open>int64_t\<close>.
  \<open>private_data\<close>, which no function writes, is left out. The fields of
  \<open>ArrowArray\<close> whose names \<open>ArrowSchema\<close> or the list library already use carry a
  prime.
\<close>

type_synonym ptr = nat

definition ARROW_FLAG_NULLABLE :: int where
  "ARROW_FLAG_NULLABLE = 2"

datatype release_hook = release_malloced_schema | release_malloced_array

datatype ArrowSchema = ArrowSchema
  (format: string) (name: string) (metadata: ptr) (flags: int) (n_children: int)
  (children: "ArrowSchema option list") (dictionary: ptr) (release: release_hook)

datatype ArrowArray = ArrowArray
  (length': int) (null_count: int) (offset: int) (n_buffers: int) (n_children': int)
  (buffers: "ptr list") (children': "ArrowArray option list") (dictionary': ptr)
  (release': release_hook)

text \<open>
  What an export function does instead of filling the structures: it reports
  ``Failed to allocate memory'', or it writes or reads where nothing is defined.
  The outcome of the \<open>malloc\<close> calls of a function is an argument of its model.
\<close>

datatype export_failure = Failed_to_allocate_memory | Write_out_of_bounds | Null_dereference

text \<open>
  \<open>ustore_to_arrow_schema\<close>. It writes \<open>array->buffers[0]\<close> before it tests the
  three pointers it allocated: a failed allocation of the buffers is a write through
  null (\<open>Buffers_null\<close>), any other failed allocation is reported (\<open>Other_null\<close>).
\<close>

datatype schema_alloc = All_allocated | Buffers_null | Other_null

definition ustore_to_arrow_schema ::
  "ustore_size_t \<Rightarrow> ustore_size_t \<Rightarrow> schema_alloc \<Rightarrow> export_failure + ArrowSchema \<times> ArrowArray" where
  "ustore_to_arrow_schema docs_count fields_count mallocs =
     (case mallocs of
        Buffers_null \<Rightarrow> Inl Null_dereference
      | Other_null \<Rightarrow> Inl Failed_to_allocate_memory
      | All_allocated \<Rightarrow> Inr
        (ArrowSchema ''+s'' [] 0 0 (sint fields_count)
           (replicate (unat fields_count) None) 0 release_malloced_schema,
         ArrowArray (sint docs_count) 0 0 1 (sint fields_count) [0]
           (replicate (unat fields_count) None) 0 release_malloced_array))"

text \<open>The \<open>switch\<close> of \<open>ustore_to_arrow_column\<close> that sets \<open>array->n_buffers\<close>.\<close>

fun column_n_buffers :: "ustore_doc_field_type_t \<Rightarrow> int" where
  "column_n_buffers ustore_doc_field_bool_k = 2"
| "column_n_buffers ustore_doc_field_uuid_k = 2"
| "column_n_buffers ustore_doc_field_i8_k = 2"
| "column_n_buffers ustore_doc_field_i16_k = 2"
| "column_n_buffers ustore_doc_field_i32_k = 2"
| "column_n_buffers ustore_doc_field_i64_k = 2"
| "column_n_buffers ustore_doc_field_u8_k = 2"
| "column_n_buffers ustore_doc_field_u16_k = 2"
| "column_n_buffers ustore_doc_field_u32_k = 2"
| "column_n_buffers ustore_doc_field_u64_k = 2"
| "column_n_buffers ustore_doc_field_f16_k = 2"
| "column_n_buffers ustore_doc_field_f32_k = 2"
| "column_n_buffers ustore_doc_field_f64_k = 2"
| "column_n_buffers ustore_doc_field_bin_k = 3"
| "column_n_buffers ustore_doc_field_str_k = 3"
| "column_n_buffers ustore_doc_field_null_k = 0"
| "column_n_buffers ustore_doc_field_other_k = 0"

text \<open>
  \<open>ustore_to_arrow_column\<close>. With two buffers it links validities and contents;
  otherwise it writes three entries, which is past the end of the allocation when
  \<open>n_buffers\<close> is 0.
\<close>

definition ustore_to_arrow_column ::
  "ustore_size_t \<Rightarrow> string \<Rightarrow> ustore_doc_field_type_t \<Rightarrow> ptr \<Rightarrow> ptr \<Rightarrow> ptr \<Rightarrow> bool
     \<Rightarrow> export_failure + ArrowSchema \<times> ArrowArray" where
  "ustore_to_arrow_column docs_count field_name field_type
       column_validities column_offsets column_contents malloc_ok =
     (let schema = ArrowSchema (ustore_doc_field_type_to_arrow_format field_type) field_name 0
                     (if column_validities \<noteq> 0 then ARROW_FLAG_NULLABLE else 0) 0 [] 0
                     release_malloced_schema;
          array = (\<lambda>bufs. ArrowArray (sint docs_count)
                     (if column_validities \<noteq> 0 then - 1 else 0) 0
                     (column_n_buffers field_type) 0 bufs [] 0 release_malloced_array)
      in if \<not> malloc_ok then Inl Failed_to_allocate_memory
         else if column_n_buffers field_type = 2
         then Inr (schema, array [column_validities, column_contents])
         else if column_n_buffers field_type = 3
         then Inr (schema, array [column_validities, column_offsets, column_contents])
         else Inl Write_out_of_bounds)"

text \<open>
  \<open>ustore_to_arrow_list\<close>. \<open>column_offsets_at i\<close> is the entry \<open>column_offsets[i]\<close>
  of the offsets array in memory, which the function reads at \<open>docs_count\<close> for the
  length of the child.
\<close>

definition ustore_to_arrow_list ::
  "ustore_size_t \<Rightarrow> string \<Rightarrow> ustore_doc_field_type_t \<Rightarrow> ptr \<Rightarrow> ptr
     \<Rightarrow> (nat \<Rightarrow> ustore_length_t) \<Rightarrow> ptr
     \<Rightarrow> schema_alloc \<Rightarrow> bool \<Rightarrow> bool \<Rightarrow> export_failure + ArrowSchema \<times> ArrowArray" where
  "ustore_to_arrow_list docs_count field_name field_type
       column_validities column_offsets column_offsets_at column_contents
       schema_mallocs buffers_malloc_ok column_malloc_ok =
     (case ustore_to_arrow_schema docs_count 1 schema_mallocs of
        Inl e \<Rightarrow> Inl e
      | Inr (schema, array) \<Rightarrow>
          if \<not> buffers_malloc_ok then Inl Failed_to_allocate_memory
          else if column_offsets = 0 then Inl Null_dereference
          else
            (case ustore_to_arrow_column (ucast (column_offsets_at (unat docs_count)))
                    ''chunks'' field_type 0 0 column_contents column_malloc_ok of
               Inl e \<Rightarrow> Inl e
             | Inr (child_schema, child_array) \<Rightarrow>
                 Inr (ArrowSchema ''+l'' field_name 0
                        (if column_validities \<noteq> 0 then ARROW_FLAG_NULLABLE else 0)
                        (n_children schema) ((children schema)[0 := Some child_schema]) 0
                        (release schema),
                      ArrowArray (length' array)
                        (if column_validities \<noteq> 0 then - 1 else 0) (offset array) 2
                        (n_children' array) [column_validities, column_offsets]
                        ((children' array)[0 := Some child_array]) (dictionary' array)
                        (release' array))))"

section \<open>The scan branch of \<open>UStoreService::DoExchange\<close>\<close>

text \<open>
  Modelled from the spec: \<open>kArgKeys\<close> and \<open>ustore_doc_field<ustore_key_t> ()\<close> are
  declared in headers that are not part of the sources; the spec names the column
  \<open>keys\<close> and gives keys the type i64.
\<close>

definition kArgKeys :: string where
  "kArgKeys = ''keys''"

definition ustore_doc_field_ustore_key_t :: ustore_doc_field_type_t where
  "ustore_doc_field_ustore_key_t = ustore_doc_field_i64_k"

text \<open>
  The scan branch, from the look-up of the input columns to the exported pair
  \<open>(output_schema_c, output_batch_c)\<close>, which \<open>arrow::ImportRecordBatch\<close> turns
  into the response batch. The arguments are what the parts outside the sources
  deliver: the pointers that \<open>get_keys\<close> and \<open>get_lengths\<close> find for the columns
  \<open>scan_starts\<close> and \<open>count_limits\<close> (null when a column is missing), the number
  of input rows \<open>tasks_count\<close>, and the outcome of the engine's \<open>ustore_scan\<close>:
  its error message if any, the addresses \<open>found_offsets\<close> and \<open>found_keys\<close>, and
  the entries \<open>found_offsets_at i\<close> of the offsets array. The result is a status, the
  exported batch, or nothing defined.
\<close>

datatype scan_result =
    Scan_status ar_status
  | Scan_batch ArrowSchema ArrowArray
  | Scan_undefined

definition export_status :: "export_failure \<Rightarrow> scan_result" where
  "export_status e =
     (case e of
        Failed_to_allocate_memory \<Rightarrow> Scan_status (ExecutionError ''Failed to allocate memory'')
      | Write_out_of_bounds \<Rightarrow> Scan_undefined
      | Null_dereference \<Rightarrow> Scan_undefined)"

definition DoExchange_scan ::
  "ptr \<Rightarrow> ptr \<Rightarrow> ustore_size_t \<Rightarrow> string option \<Rightarrow> ptr \<Rightarrow> (nat \<Rightarrow> ustore_length_t) \<Rightarrow> ptr
     \<Rightarrow> schema_alloc \<Rightarrow> bool \<Rightarrow> bool \<Rightarrow> scan_result" where
  "DoExchange_scan input_start_keys input_lengths tasks_count scan_error
       found_offsets found_offsets_at found_keys
       schema_mallocs keys_malloc_ok offsets_malloc_ok =
     (if input_start_keys = 0 \<or> input_lengths = 0
      then Scan_status (Invalid ''Keys and lengths must have been provided for scans'')
      else case scan_error of
        Some m \<Rightarrow> Scan_status (ExecutionError m)
      | None \<Rightarrow>
          if found_offsets = 0 then Scan_undefined
          else
            let total = (ucast (found_offsets_at (unat tasks_count)) :: ustore_size_t) in
            (case ustore_to_arrow_schema total 2 schema_mallocs of
               Inl e \<Rightarrow> export_status e
             | Inr (output_schema_c, output_batch_c) \<Rightarrow>
                 (case ustore_to_arrow_column total kArgKeys ustore_doc_field_ustore_key_t
                         0 0 found_keys keys_malloc_ok of
                    Inl e \<Rightarrow> export_status e
                  | Inr (schema0, array0) \<Rightarrow>
                      (case ustore_to_arrow_column total ''offsets''
                              ustore_doc_field_ustore_key_t 0 0 found_offsets
                              offsets_malloc_ok of
                         Inl e \<Rightarrow> export_status e
                       | Inr (schema1, array1) \<Rightarrow>
                           Scan_batch
                             (ArrowSchema (format output_schema_c) (name output_schema_c)
                                (metadata output_schema_c) (flags output_schema_c)
                                (n_children output_schema_c)
                                ((children output_schema_c)
                                   [0 := Some schema0, 1 := Some schema1])
                                (dictionary output_schema_c) (release output_schema_c))
                             (ArrowArray (length' output_batch_c) (null_count output_batch_c)
                                (offset output_batch_c) (n_buffers output_batch_c)
                                (n_children' output_batch_c) (buffers output_batch_c)
                                ((children' output_batch_c)
                                   [0 := Some array0, 1 := Some array1])
                                (dictionary' output_batch_c) (release' output_batch_c))))))"

section \<open>Invariants of the session manager\<close>

text \<open>
  \<open>capacity_inv n\<close>: the keys of the map are distinct and each free stack together
  with the map holds \<open>n\<close> handles. \<open>resident_idle st B\<close>: every session of the map
  that is not borrowed (not in \<open>B\<close>) is marked as not executing.
\<close>

definition capacity_inv :: "nat \<Rightarrow> sessions_t \<Rightarrow> bool" where
  "capacity_inv n st \<longleftrightarrow>
     distinct (map fst (client_to_txn st)) \<and>
     length (free_txns st) + length (client_to_txn st) = n \<and>
     length (free_arenas st) + length (client_to_txn st) = n"

definition resident_idle :: "sessions_t \<Rightarrow> session_id_t set \<Rightarrow> bool" where
  "resident_idle st B \<longleftrightarrow>
     (\<forall>sid r. map_of (client_to_txn st) sid = Some r \<and> sid \<notin> B \<longrightarrow> \<not> executing r)"

section \<open>Properties of the session manager\<close>

subsection \<open>Auxiliary facts\<close>

lemmas session_defs =
  sessions_init_def request_txn_def continue_txn_def hold_txn_def submit_def release_txn_def
  release_txn_record_def pop_def min_element_def pop_comp_def duration_cast_milliseconds_def
  insert_or_assign_def Let_def

lemma min_element_loop_in: "min_element_loop cmp x xs \<in> set (x # xs)"
  by (induction xs arbitrary: x) auto

lemma min_element_in: "min_element cmp xs = Some it \<Longrightarrow> it \<in> set xs"
  using min_element_loop_in [of cmp] by (auto simp: min_element_def split: list.splits)

lemma min_element_None: "min_element cmp xs = None \<longleftrightarrow> xs = []"
  by (simp add: min_element_def split: list.splits)

lemma length_delete_distinct:
  "distinct (map fst al) \<Longrightarrow> k \<in> fst ` set al \<Longrightarrow> Suc (length (AList.delete k al)) = length al"
  by (induction al) (auto simp: image_iff)

lemma length_update:
  "length (AList.update k v al) = (if k \<in> fst ` set al then length al else Suc (length al))"
  by (induction al) auto

lemma map_of_None_iff: "map_of al k = None \<longleftrightarrow> k \<notin> fst ` set al"
  by (simp add: map_of_eq_None_iff)

lemma map_of_insert_or_assign: "map_of (insert_or_assign k v al) = (map_of al)(k \<mapsto> v)"
  by (simp add: insert_or_assign_def AList.update_conv' split: option.splits)

lemma length_insert_or_assign:
  "length (insert_or_assign k v al) =
     (if k \<in> fst ` set al then length al else Suc (length al))"
  by (auto simp: insert_or_assign_def length_update map_of_None_iff split: option.splits)

lemma distinct_insert_or_assign:
  "distinct (map fst al) \<Longrightarrow> distinct (map fst (insert_or_assign k v al))"
  by (auto simp: insert_or_assign_def AList.distinct_update map_of_None_iff
      split: option.splits)

lemma length_insert_delete:
  assumes "distinct (map fst al)" "k \<in> fst ` set al" "sid \<notin> fst ` set al"
  shows "length (insert_or_assign sid v (AList.delete k al)) = length al"
proof -
  from assms(3) have "sid \<notin> fst ` set (AList.delete k al)"
    using AList.dom_delete_subset [of k al] by blast
  then have "length (insert_or_assign sid v (AList.delete k al)) =
      Suc (length (AList.delete k al))"
    by (simp add: length_insert_or_assign)
  with length_delete_distinct [OF assms(1,2)] show ?thesis by simp
qed

lemma map_of_Some_in: "map_of al k = Some v \<Longrightarrow> k \<in> fst ` set al"
  by (force dest: map_of_SomeD)

lemma pop_Inr:
  "pop now st = (Inr r, st') \<Longrightarrow>
     \<exists>k r0. (k, r0) \<in> set (client_to_txn st) \<and> \<not> executing r0 \<and> r = r0\<lparr>executing := False\<rparr> \<and>
       st' = st\<lparr>client_to_txn := AList.delete k (client_to_txn st)\<rparr>"
proof -
  assume a: "pop now st = (Inr r, st')"
  then obtain it where it: "min_element pop_comp (client_to_txn st) = Some it"
    by (auto simp: pop_def split: option.splits)
  then have "(fst it, snd it) \<in> set (client_to_txn st)" using min_element_in by force
  moreover from a it have "\<not> executing (snd it)" "r = (snd it)\<lparr>executing := False\<rparr>"
    "st' = st\<lparr>client_to_txn := AList.delete (fst it) (client_to_txn st)\<rparr>"
    by (auto simp: pop_def Let_def split: if_splits)
  ultimately show ?thesis by blast
qed

lemma pop_Inl:
  "pop now st = (Inl e, st') \<Longrightarrow> st' = st \<and> (e = Deref_end \<longleftrightarrow> client_to_txn st = [])"
  by (cases "client_to_txn st") (auto simp: pop_def Let_def min_element_def split: if_splits)

lemma request_txn_Inl:
  "request_txn sid now st = (Inl e, st') \<Longrightarrow> st' = st"
  by (auto simp: request_txn_def split: if_splits prod.splits sum.splits dest: pop_Inl)

lemma request_txn_Inr:
  assumes "request_txn sid now st = (Inr r, st')"
  shows "sid \<notin> fst ` set (client_to_txn st) \<and>
         (if free_txns st = [] \<or> free_arenas st = []
          then \<exists>k r1. (k, r1) \<in> set (client_to_txn st) \<and>
                 st' = st\<lparr>client_to_txn := AList.delete k (client_to_txn st)\<rparr>
          else st' = st\<lparr>free_arenas := butlast (free_arenas st),
                         free_txns := butlast (free_txns st)\<rparr>)"
proof -
  from assms have absent: "sid \<notin> fst ` set (client_to_txn st)"
    by (auto simp: request_txn_def map_of_None_iff split: if_splits)
  show ?thesis
  proof (cases "free_txns st = [] \<or> free_arenas st = []")
    case True
    with assms absent obtain r0 where "pop now st = (Inr r0, st')"
      by (auto simp: request_txn_def map_of_None_iff split: if_splits prod.splits sum.splits)
    then have "\<exists>k r1. (k, r1) \<in> set (client_to_txn st) \<and>
                 st' = st\<lparr>client_to_txn := AList.delete k (client_to_txn st)\<rparr>"
      using pop_Inr by blast
    with True absent show ?thesis by simp
  next
    case False
    with assms absent show ?thesis
      by (auto simp: request_txn_def map_of_None_iff split: if_splits)
  qed
qed

lemma request_txn_map:
  assumes "request_txn sid now st = (res, st')" "map_of (client_to_txn st') s = Some r"
  shows "map_of (client_to_txn st) s = Some r"
proof (cases res)
  case (Inl e)
  with assms(1) have "st' = st" using request_txn_Inl by blast
  with assms(2) show ?thesis by simp
next
  case (Inr r0)
  show ?thesis
  proof (cases "free_txns st = [] \<or> free_arenas st = []")
    case True
    with request_txn_Inr [of sid now st r0 st'] assms(1) Inr obtain k
      where "st' = st\<lparr>client_to_txn := AList.delete k (client_to_txn st)\<rparr>" by auto
    with assms(2) show ?thesis
      by (simp add: AList.delete_conv' split: if_splits)
  next
    case False
    with request_txn_Inr [of sid now st r0 st'] assms Inr show ?thesis by simp
  qed
qed

subsection \<open>\<open>continue_txn\<close>\<close>

text \<open>
  Claim C4. \<open>continue_txn\<close> fails with the not-found error (``Transaction was
  terminated, start a new one'') when the session id is absent from the map and with
  the conflict error (``Transaction can't be modified concurrently.'') when the mapped
  record is executing, leaving the map (and the whole manager) unchanged in both cases;
  otherwise it marks the record of that id as executing, stamps it with the current
  time, stores it in the map and returns it.
\<close>

theorem continue_txn_cases:
  "(map_of (client_to_txn st) sid = None \<longrightarrow>
      continue_txn sid now st =
        (Inl (Logged args_wrong_k ''Transaction was terminated, start a new one''), st))
   \<and> (\<forall>r. map_of (client_to_txn st) sid = Some r \<and> executing r \<longrightarrow>
      continue_txn sid now st =
        (Inl (Logged args_wrong_k ''Transaction can't be modified concurrently.''), st))
   \<and> (\<forall>r. map_of (client_to_txn st) sid = Some r \<and> \<not> executing r \<longrightarrow>
      fst (continue_txn sid now st) = Inr (r\<lparr>executing := True, last_access := now\<rparr>)
      \<and> map_of (client_to_txn (snd (continue_txn sid now st))) =
          (map_of (client_to_txn st))
            (sid \<mapsto> r\<lparr>executing := True, last_access := now\<rparr>)
      \<and> free_arenas (snd (continue_txn sid now st)) = free_arenas st
      \<and> free_txns (snd (continue_txn sid now st)) = free_txns st)"
  by (simp add: continue_txn_def Let_def AList.update_conv')

theorem continue_txn_cases_witness:
  "continue_txn \<lparr>client_id = 1, txn_id = 7\<rparr> 5 (sessions_init 1) =
     (Inl (Logged args_wrong_k ''Transaction was terminated, start a new one''), sessions_init 1)
   \<and> fst (continue_txn \<lparr>client_id = 1, txn_id = 7\<rparr> 5
        \<lparr>free_arenas = [], free_txns = [],
         client_to_txn = [(\<lparr>client_id = 1, txn_id = 7\<rparr>,
            \<lparr>txn = 3, arena = 4, last_access = 2, executing = True\<rparr>)],
         milliseconds_timeout = 30000\<rparr>) =
       Inl (Logged args_wrong_k ''Transaction can't be modified concurrently.'')
   \<and> fst (continue_txn \<lparr>client_id = 1, txn_id = 7\<rparr> 5
        \<lparr>free_arenas = [], free_txns = [],
         client_to_txn = [(\<lparr>client_id = 1, txn_id = 7\<rparr>,
            \<lparr>txn = 3, arena = 4, last_access = 2, executing = False\<rparr>)],
         milliseconds_timeout = 30000\<rparr>) =
       Inr \<lparr>txn = 3, arena = 4, last_access = 5, executing = True\<rparr>"
  using continue_txn_cases [of "sessions_init 1" "\<lparr>client_id = 1, txn_id = 7\<rparr>" 5]
    continue_txn_cases [of "\<lparr>free_arenas = [], free_txns = [],
         client_to_txn = [(\<lparr>client_id = 1, txn_id = 7\<rparr>,
            \<lparr>txn = 3, arena = 4, last_access = 2, executing = True\<rparr>)],
         milliseconds_timeout = 30000\<rparr>" "\<lparr>client_id = 1, txn_id = 7\<rparr>" 5]
    continue_txn_cases [of "\<lparr>free_arenas = [], free_txns = [],
         client_to_txn = [(\<lparr>client_id = 1, txn_id = 7\<rparr>,
            \<lparr>txn = 3, arena = 4, last_access = 2, executing = False\<rparr>)],
         milliseconds_timeout = 30000\<rparr>" "\<lparr>client_id = 1, txn_id = 7\<rparr>" 5]
  by (simp add: sessions_init_def)

subsection \<open>\<open>hold_txn\<close> and the executing flag\<close>

lemma hold_txn_entry:
  "map_of (client_to_txn (hold_txn sid r st)) sid = Some (r\<lparr>executing := False\<rparr>)"
  by (simp add: hold_txn_def submit_def map_of_insert_or_assign)

lemma step_resident_idle:
  assumes "resident_idle st B" "step c st = Some st'"
  shows "resident_idle st' (borrowed_step c st B)"
proof (cases c)
  case (Request_txn sid now)
  obtain res st1 where req: "request_txn sid now st = (res, st1)"
    by (cases "request_txn sid now st")
  with assms(2) Request_txn have "st' = st1"
    by (auto split: sum.splits failure.splits)
  with request_txn_map [OF req]
  have "\<And>s r. map_of (client_to_txn st') s = Some r \<Longrightarrow> map_of (client_to_txn st) s = Some r"
    by simp
  with assms(1) Request_txn show ?thesis
    by (auto simp: resident_idle_def)
next
  case (Continue_txn sid now)
  with assms show ?thesis
    by (auto simp: resident_idle_def continue_txn_def Let_def AList.update_conv'
        split: option.splits if_splits)
next
  case (Hold_txn sid r)
  with assms show ?thesis
    by (auto simp: resident_idle_def hold_txn_def submit_def map_of_insert_or_assign
        split: if_splits)
next
  case (Release_txn sid)
  with assms show ?thesis
    by (auto simp: resident_idle_def release_txn_def AList.delete_conv'
        split: option.splits if_splits)
next
  case (Release_txn_record r)
  with assms show ?thesis
    by (auto simp: resident_idle_def release_txn_record_def)
qed

lemma run_borrowed_resident_idle:
  "resident_idle st B \<Longrightarrow> run_borrowed st B cs = Some (st', B') \<Longrightarrow> resident_idle st' B'"
proof (induction cs arbitrary: st B)
  case Nil
  then show ?case by simp
next
  case (Cons c cs)
  from Cons.prems(2) obtain st1 where s: "step c st = Some st1"
    and r: "run_borrowed st1 (borrowed_step c st B) cs = Some (st', B')"
    by (auto split: option.splits)
  from Cons.IH [OF step_resident_idle [OF Cons.prems(1) s] r] show ?case .
qed

text \<open>
  Claim C10. After every \<open>hold_txn (session_id, record)\<close> the entry of the map for
  \<open>session_id\<close> is the record with \<open>executing = false\<close>, whatever the flag of the
  record passed in; so it is after the destructor of a transactional
  \<open>session_lock_t\<close>, which passes \<open>executing = true\<close>. Hence, after any sequence of
  calls on a fresh session manager, every session of the map that no dispatcher has
  borrowed through \<open>continue_txn\<close> is marked as not executing.
\<close>

theorem hold_txn_stores_idle:
  "map_of (client_to_txn (hold_txn sid r st)) sid = Some (r\<lparr>executing := False\<rparr>)
   \<and> (lock_txn lk \<noteq> 0 \<longrightarrow>
        map_of (client_to_txn (session_lock_dtor lk now st)) (lock_session_id lk) =
          Some \<lparr>txn = lock_txn lk, arena = lock_arena lk, last_access = now, executing = False\<rparr>)
   \<and> (run_borrowed (sessions_init n) {} cs = Some (st', B) \<longrightarrow> resident_idle st' B)"
proof -
  have "resident_idle (sessions_init n) {}"
    by (simp add: resident_idle_def sessions_init_def)
  then have "run_borrowed (sessions_init n) {} cs = Some (st', B) \<longrightarrow> resident_idle st' B"
    using run_borrowed_resident_idle by blast
  then show ?thesis
    by (simp add: hold_txn_entry session_lock_dtor_def)
qed

theorem hold_txn_stores_idle_witness:
  "map_of (client_to_txn (session_lock_dtor
       \<lparr>lock_session_id = \<lparr>client_id = 1, txn_id = 7\<rparr>, lock_txn = 3, lock_arena = 4\<rparr> 9
       (sessions_init 1))) \<lparr>client_id = 1, txn_id = 7\<rparr> =
     Some \<lparr>txn = 3, arena = 4, last_access = 9, executing = False\<rparr>
   \<and> resident_idle
        \<lparr>free_arenas = [], free_txns = [],
         client_to_txn = [(\<lparr>client_id = 1, txn_id = 7\<rparr>,
            \<lparr>txn = 3, arena = 4, last_access = 9, executing = False\<rparr>)],
         milliseconds_timeout = 30000\<rparr> {}"
proof -
  let ?sid = "\<lparr>client_id = 1, txn_id = 7\<rparr>"
  let ?cs = "[Request_txn ?sid 0,
       Hold_txn ?sid \<lparr>txn = 3, arena = 4, last_access = 0, executing = True\<rparr>,
       Continue_txn ?sid 5,
       Hold_txn ?sid \<lparr>txn = 3, arena = 4, last_access = 9, executing = True\<rparr>]"
  let ?st = "\<lparr>free_arenas = [], free_txns = [],
         client_to_txn = [(?sid, \<lparr>txn = 3, arena = 4, last_access = 9, executing = False\<rparr>)],
         milliseconds_timeout = 30000\<rparr>"
  let ?lk = "\<lparr>lock_session_id = ?sid, lock_txn = 3, lock_arena = 4\<rparr>"
  have r: "run_borrowed (sessions_init 1) {} ?cs = Some (?st, {})"
    by (simp add: session_defs)
  have l: "lock_txn ?lk \<noteq> 0"
    by simp
  note t = hold_txn_stores_idle [of ?sid
      "\<lparr>txn = 3, arena = 4, last_access = 9, executing = True\<rparr>" "sessions_init 1"
      ?lk 9 1 ?cs ?st "{}"]
  from t l have "map_of (client_to_txn (session_lock_dtor ?lk 9 (sessions_init 1))) ?sid =
     Some \<lparr>txn = 3, arena = 4, last_access = 9, executing = False\<rparr>"
    by simp
  moreover from t r have "resident_idle ?st {}"
    by blast
  ultimately show ?thesis by blast
qed

subsection \<open>The \<open>txn_commit\<close> action\<close>

text \<open>
  Claim C5. A \<open>txn_commit\<close> request on a session that is in the map and not
  executing removes the session from the map and pushes its arena and its transaction
  handle onto the free stacks, whether the engine's commit succeeds or reports an
  error; the status is OK in the first case and an execution error in the second.
\<close>

theorem txn_commit_releases_session:
  assumes "transaction_id params \<noteq> None"
    and "map_of (client_to_txn st) (session_id params) = Some r"
    and "\<not> executing r"
  shows "session_id params \<notin>
           fst ` set (client_to_txn (snd (DoAction_txn_commit params commit_error now st)))
     \<and> free_arenas (snd (DoAction_txn_commit params commit_error now st)) =
         free_arenas st @ [arena r]
     \<and> free_txns (snd (DoAction_txn_commit params commit_error now st)) =
         free_txns st @ [txn r]
     \<and> fst (fst (DoAction_txn_commit params commit_error now st)) =
         (case commit_error of None \<Rightarrow> OK | Some m \<Rightarrow> ExecutionError m)"
  using assms
  by (cases commit_error)
    (simp_all add: DoAction_txn_commit_def continue_txn_def release_txn_def Let_def
      AList.update_conv' AList.delete_notin_dom)

theorem txn_commit_releases_session_witness:
  "transaction_id \<lparr>session_id = \<lparr>client_id = 1, txn_id = 7\<rparr>, transaction_id = Some (View ''7'')\<rparr>
     \<noteq> None
   \<and> map_of [(\<lparr>client_id = 1, txn_id = 7\<rparr>,
          \<lparr>txn = 3, arena = 4, last_access = 2, executing = False\<rparr>)]
        \<lparr>client_id = 1, txn_id = 7\<rparr> =
       Some \<lparr>txn = 3, arena = 4, last_access = 2, executing = False\<rparr>
   \<and> \<lparr>client_id = 1, txn_id = 7\<rparr> \<notin> fst ` set (client_to_txn (snd (DoAction_txn_commit
        \<lparr>session_id = \<lparr>client_id = 1, txn_id = 7\<rparr>, transaction_id = Some (View ''7'')\<rparr>
        (Some ''commit failed'') 5
        \<lparr>free_arenas = [], free_txns = [],
         client_to_txn = [(\<lparr>client_id = 1, txn_id = 7\<rparr>,
            \<lparr>txn = 3, arena = 4, last_access = 2, executing = False\<rparr>)],
         milliseconds_timeout = 30000\<rparr>)))
   \<and> free_arenas (snd (DoAction_txn_commit
        \<lparr>session_id = \<lparr>client_id = 1, txn_id = 7\<rparr>, transaction_id = Some (View ''7'')\<rparr>
        (Some ''commit failed'') 5
        \<lparr>free_arenas = [], free_txns = [],
         client_to_txn = [(\<lparr>client_id = 1, txn_id = 7\<rparr>,
            \<lparr>txn = 3, arena = 4, last_access = 2, executing = False\<rparr>)],
         milliseconds_timeout = 30000\<rparr>)) = [4]
   \<and> free_txns (snd (DoAction_txn_commit
        \<lparr>session_id = \<lparr>client_id = 1, txn_id = 7\<rparr>, transaction_id = Some (View ''7'')\<rparr>
        (Some ''commit failed'') 5
        \<lparr>free_arenas = [], free_txns = [],
         client_to_txn = [(\<lparr>client_id = 1, txn_id = 7\<rparr>,
            \<lparr>txn = 3, arena = 4, last_access = 2, executing = False\<rparr>)],
         milliseconds_timeout = 30000\<rparr>)) = [3]
   \<and> fst (fst (DoAction_txn_commit
        \<lparr>session_id = \<lparr>client_id = 1, txn_id = 7\<rparr>, transaction_id = Some (View ''7'')\<rparr>
        (Some ''commit failed'') 5
        \<lparr>free_arenas = [], free_txns = [],
         client_to_txn = [(\<lparr>client_id = 1, txn_id = 7\<rparr>,
            \<lparr>txn = 3, arena = 4, last_access = 2, executing = False\<rparr>)],
         milliseconds_timeout = 30000\<rparr>)) = ExecutionError ''commit failed''"
  using txn_commit_releases_session
    [of "\<lparr>session_id = \<lparr>client_id = 1, txn_id = 7\<rparr>, transaction_id = Some (View ''7'')\<rparr>"
      "\<lparr>free_arenas = [], free_txns = [],
         client_to_txn = [(\<lparr>client_id = 1, txn_id = 7\<rparr>,
            \<lparr>txn = 3, arena = 4, last_access = 2, executing = False\<rparr>)],
         milliseconds_timeout = 30000\<rparr>"
      "\<lparr>txn = 3, arena = 4, last_access = 2, executing = False\<rparr>"
      "Some ''commit failed''" 5]
  by simp

subsection \<open>Eviction of idle sessions\<close>

text \<open>
  Claim C1 (the code at the failing input). Capacity 1, idle timeout 30 seconds: a
  session is begun and held at time 0, and 10 milliseconds later another session is
  requested. The free stacks are empty and the only session is idle for 10
  milliseconds, far less than the timeout, yet \<open>request_txn\<close> evicts it and hands
  its handles to the caller, and so does \<open>request_arena\<close> in the same state:
  \<open>pop\<close> computes the age as \<open>last_access - now\<close>, a negative count, which the
  comparison with the unsigned timeout reads as a huge number.
\<close>

theorem pop_evicts_young_session:
  "run (sessions_init 1)
     [Request_txn \<lparr>client_id = 1, txn_id = 7\<rparr> 0,
      Hold_txn \<lparr>client_id = 1, txn_id = 7\<rparr>
        \<lparr>txn = 3, arena = 0, last_access = 0, executing = True\<rparr>] =
     Some \<lparr>free_arenas = [], free_txns = [],
           client_to_txn = [(\<lparr>client_id = 1, txn_id = 7\<rparr>,
              \<lparr>txn = 3, arena = 0, last_access = 0, executing = False\<rparr>)],
           milliseconds_timeout = 30000\<rparr>
   \<and> request_txn \<lparr>client_id = 2, txn_id = 8\<rparr> 10000000
       \<lparr>free_arenas = [], free_txns = [],
        client_to_txn = [(\<lparr>client_id = 1, txn_id = 7\<rparr>,
           \<lparr>txn = 3, arena = 0, last_access = 0, executing = False\<rparr>)],
        milliseconds_timeout = 30000\<rparr> =
     (Inr \<lparr>txn = 3, arena = 0, last_access = 10000000, executing = True\<rparr>,
      \<lparr>free_arenas = [], free_txns = [], client_to_txn = [],
       milliseconds_timeout = 30000\<rparr>)
   \<and> request_arena 10000000
       \<lparr>free_arenas = [], free_txns = [],
        client_to_txn = [(\<lparr>client_id = 1, txn_id = 7\<rparr>,
           \<lparr>txn = 3, arena = 0, last_access = 0, executing = False\<rparr>)],
        milliseconds_timeout = 30000\<rparr> =
     (Inr 0,
      \<lparr>free_arenas = [], free_txns = [3], client_to_txn = [],
       milliseconds_timeout = 30000\<rparr>)"
  by (simp add: session_defs request_arena_def)

text \<open>
  \<open>std::min_element\<close> replaces its candidate only by an idle session that was
  accessed strictly earlier. So an executing session that stands first in the iteration
  order stays the candidate unless an idle session behind it is older: in the order
  listed here, an idle session of age 54 seconds behind an executing one of age 55
  seconds is not found.
\<close>

lemma pop_skips_idle_behind_executing:
  "request_txn \<lparr>client_id = 3, txn_id = 9\<rparr> 60000000000
       \<lparr>free_arenas = [], free_txns = [],
        client_to_txn =
          [(\<lparr>client_id = 1, txn_id = 7\<rparr>,
            \<lparr>txn = 3, arena = 4, last_access = 5000000000, executing = True\<rparr>),
           (\<lparr>client_id = 2, txn_id = 8\<rparr>,
            \<lparr>txn = 5, arena = 6, last_access = 6000000000, executing = False\<rparr>)],
        milliseconds_timeout = 30000\<rparr> =
     (Inl (Logged error_unknown_k ''Too many concurrent sessions''),
      \<lparr>free_arenas = [], free_txns = [],
        client_to_txn =
          [(\<lparr>client_id = 1, txn_id = 7\<rparr>,
            \<lparr>txn = 3, arena = 4, last_access = 5000000000, executing = True\<rparr>),
           (\<lparr>client_id = 2, txn_id = 8\<rparr>,
            \<lparr>txn = 5, arena = 6, last_access = 6000000000, executing = False\<rparr>)],
        milliseconds_timeout = 30000\<rparr>)"
  by (simp add: session_defs)

text \<open>
  When every session of a map that is not empty is executing, \<open>pop\<close> fails with
  ``Too many concurrent sessions''; a \<open>pop\<close> that fails leaves the manager as it
  was (\<open>pop_Inl\<close>).
\<close>

lemma pop_all_executing:
  assumes "client_to_txn st \<noteq> []"
    and "\<forall>(k, r) \<in> set (client_to_txn st). executing r"
  shows "pop now st = (Inl (Logged error_unknown_k ''Too many concurrent sessions''), st)"
proof -
  from assms(1) obtain it where it: "min_element pop_comp (client_to_txn st) = Some it"
    by (cases "client_to_txn st") (simp_all add: min_element_def)
  from min_element_in [OF it] assms(2) have "executing (snd it)"
    by (cases it) auto
  with it show ?thesis by (simp add: pop_def Let_def)
qed

lemma neg_mod_2_64:
  assumes "1 \<le> a" "a < 2 ^ 63"
  shows "(- a) mod (2 ^ 64 :: int) = 2 ^ 64 - a"
proof -
  have "(- a) mod (2 ^ 64 :: int) = (2 ^ 64 - a) mod 2 ^ 64"
    by (metis minus_mod_self2 uminus_add_conv_diff add.commute mod_add_self1)
  also have "\<dots> = 2 ^ 64 - a"
    using assms by (intro mod_pos_pos_trivial) simp_all
  finally show ?thesis .
qed

text \<open>
  The timeout has no part in the decision: whenever the session that
  \<open>std::min_element\<close> picks is idle and was last used at least one millisecond
  ago, \<open>pop\<close> evicts it (for ages and timeouts below \<open>2 ^ 63\<close> milliseconds).
\<close>

lemma pop_ignores_timeout:
  assumes pick: "min_element pop_comp (client_to_txn st) = Some (sid, r)"
    and idle: "\<not> executing r"
    and old: "last_access r + 1000000 \<le> now"
    and fits: "now - last_access r < 2 ^ 63 * 1000000"
    and timeout: "milliseconds_timeout st \<le> 2 ^ 63"
  shows "pop now st =
     (Inr (r\<lparr>executing := False\<rparr>),
      st\<lparr>client_to_txn := AList.delete sid (client_to_txn st)\<rparr>)"
proof -
  define a where "a = (now - last_access r) div 1000000"
  from old have a1: "1 \<le> a" unfolding a_def by simp
  from fits have a2: "a < 2 ^ 63" unfolding a_def by simp
  from old have age: "duration_cast_milliseconds (last_access r - now) = - a"
    by (simp add: duration_cast_milliseconds_def a_def)
  have "int (milliseconds_timeout st) \<le> 2 ^ 63" using timeout
    by (metis of_nat_le_iff of_nat_numeral of_nat_power)
  with neg_mod_2_64 [OF a1 a2] a2
  have "\<not> (- a) mod 2 ^ 64 < int (milliseconds_timeout st)" by simp
  with pick idle age show ?thesis
    by (simp add: pop_def Let_def)
qed

subsection \<open>The capacity of the pool\<close>

text \<open>
  Claim C2, as stated, fails: with capacity 1, a session is begun and held, continued,
  released by id (as a commit does), and then held again by the dispatcher that had
  continued it. Every \<open>request_txn\<close> is followed by its \<open>hold_txn\<close>, and at the end
  the transaction stack holds one handle and the map one session: 2, not 1.
\<close>

theorem capacity_sum_counterexample:
  "run (sessions_init 1)
     [Request_txn \<lparr>client_id = 1, txn_id = 7\<rparr> 0,
      Hold_txn \<lparr>client_id = 1, txn_id = 7\<rparr>
        \<lparr>txn = 3, arena = 0, last_access = 0, executing = True\<rparr>,
      Continue_txn \<lparr>client_id = 1, txn_id = 7\<rparr> 5,
      Release_txn \<lparr>client_id = 1, txn_id = 7\<rparr>,
      Hold_txn \<lparr>client_id = 1, txn_id = 7\<rparr>
        \<lparr>txn = 3, arena = 4, last_access = 9, executing = True\<rparr>] =
     Some \<lparr>free_arenas = [0], free_txns = [3],
           client_to_txn = [(\<lparr>client_id = 1, txn_id = 7\<rparr>,
              \<lparr>txn = 3, arena = 4, last_access = 9, executing = False\<rparr>)],
           milliseconds_timeout = 30000\<rparr>
   \<and> length (free_txns \<lparr>free_arenas = [0], free_txns = [3],
           client_to_txn = [(\<lparr>client_id = 1, txn_id = 7\<rparr>,
              \<lparr>txn = 3, arena = 4, last_access = 9, executing = False\<rparr>)],
           milliseconds_timeout = 30000\<rparr>)
       + length (client_to_txn \<lparr>free_arenas = [0], free_txns = [3],
           client_to_txn = [(\<lparr>client_id = 1, txn_id = 7\<rparr>,
              \<lparr>txn = 3, arena = 4, last_access = 9, executing = False\<rparr>)],
           milliseconds_timeout = 30000\<rparr>) = 2"
  by (simp add: session_defs)

lemma sessions_init_inv: "capacity_inv n (sessions_init n)"
  by (simp add: capacity_inv_def sessions_init_def)

lemma request_txn_no_deref:
  "capacity_inv n st \<Longrightarrow> 0 < n \<Longrightarrow> fst (request_txn sid now st) \<noteq> Inl Deref_end"
  by (auto simp: request_txn_def capacity_inv_def split: if_splits prod.splits sum.splits dest!: pop_Inl)

lemma request_hold_inv:
  assumes "capacity_inv n st" "request_txn sid now st = (Inr r, st')"
  shows "capacity_inv n (hold_txn sid r' st')"
proof (cases "free_txns st = [] \<or> free_arenas st = []")
  case True
  with request_txn_Inr [OF assms(2)] obtain k r1
    where absent: "sid \<notin> fst ` set (client_to_txn st)"
      and k: "(k, r1) \<in> set (client_to_txn st)"
      and st': "st' = st\<lparr>client_to_txn := AList.delete k (client_to_txn st)\<rparr>"
    by auto
  from k have kin: "k \<in> fst ` set (client_to_txn st)" by force
  from assms(1) have d: "distinct (map fst (client_to_txn st))" by (simp add: capacity_inv_def)
  have "length (insert_or_assign sid (r'\<lparr>executing := False\<rparr>)
            (AList.delete k (client_to_txn st))) = length (client_to_txn st)"
    by (rule length_insert_delete [OF d kin absent])
  moreover have "distinct (map fst (insert_or_assign sid (r'\<lparr>executing := False\<rparr>)
                   (AList.delete k (client_to_txn st))))"
    using d by (simp add: distinct_insert_or_assign AList.distinct_delete)
  ultimately show ?thesis
    using assms(1) by (simp add: capacity_inv_def hold_txn_def submit_def st')
next
  case False
  with request_txn_Inr [OF assms(2)]
  have absent: "sid \<notin> fst ` set (client_to_txn st)"
    and st': "st' = st\<lparr>free_arenas := butlast (free_arenas st),
                        free_txns := butlast (free_txns st)\<rparr>"
    by auto
  from False have "0 < length (free_txns st)" "0 < length (free_arenas st)" by auto
  with assms(1) absent show ?thesis
    by (auto simp: capacity_inv_def hold_txn_def submit_def st' length_insert_or_assign
        distinct_insert_or_assign)
qed

lemma request_release_record_inv:
  assumes "capacity_inv n st" "request_txn sid now st = (Inr r, st')"
  shows "capacity_inv n (release_txn_record r' st')"
proof (cases "free_txns st = [] \<or> free_arenas st = []")
  case True
  with request_txn_Inr [OF assms(2)] obtain k r1
    where k: "(k, r1) \<in> set (client_to_txn st)"
      and st': "st' = st\<lparr>client_to_txn := AList.delete k (client_to_txn st)\<rparr>"
    by auto
  from k have kin: "k \<in> fst ` set (client_to_txn st)" by force
  from assms(1) have d: "distinct (map fst (client_to_txn st))" by (simp add: capacity_inv_def)
  from length_delete_distinct [OF d kin] assms(1) d show ?thesis
    by (simp add: capacity_inv_def release_txn_record_def st' AList.distinct_delete)
next
  case False
  with request_txn_Inr [OF assms(2)]
  have st': "st' = st\<lparr>free_arenas := butlast (free_arenas st),
                        free_txns := butlast (free_txns st)\<rparr>"
    by auto
  from False have "0 < length (free_txns st)" "0 < length (free_arenas st)" by auto
  with assms(1) show ?thesis
    by (auto simp: capacity_inv_def release_txn_record_def st')
qed

lemma continue_txn_inv: "capacity_inv n st \<Longrightarrow> capacity_inv n (snd (continue_txn sid now st))"
  by (auto simp: continue_txn_def capacity_inv_def Let_def length_update AList.distinct_update
      map_of_Some_in split: option.splits)

lemma hold_present_inv:
  "capacity_inv n st \<Longrightarrow> map_of (client_to_txn st) sid \<noteq> None \<Longrightarrow> capacity_inv n (hold_txn sid r st)"
  by (auto simp: capacity_inv_def hold_txn_def submit_def length_insert_or_assign
      distinct_insert_or_assign map_of_Some_in)

lemma release_txn_inv: "capacity_inv n st \<Longrightarrow> capacity_inv n (release_txn sid st)"
proof (cases "map_of (client_to_txn st) sid")
  case None
  assume "capacity_inv n st"
  with None show ?thesis by (simp add: release_txn_def)
next
  case (Some r)
  assume inv: "capacity_inv n st"
  from Some have "sid \<in> fst ` set (client_to_txn st)"
    by (rule map_of_Some_in)
  with inv Some show ?thesis
    using length_delete_distinct [of "client_to_txn st" sid]
    by (auto simp: capacity_inv_def release_txn_def AList.distinct_delete)
qed

lemma disciplined_run:
  "0 < n \<Longrightarrow> capacity_inv n st \<Longrightarrow> disciplined st cs \<Longrightarrow>
     \<exists>st'. run st cs = Some st' \<and> capacity_inv n st'"
proof (induction st cs rule: disciplined.induct)
  case (1 st)
  then show ?case by simp
next
  case (2 st sid now cs)
  obtain res st1 where req: "request_txn sid now st = (res, st1)" by (cases "request_txn sid now st")
  show ?case
  proof (cases res)
    case (Inl e)
    with req have st1: "st1 = st" using request_txn_Inl by blast
    from 2(4) have "e \<noteq> Deref_end" using request_txn_no_deref [OF 2(5) 2(4), of sid now] req Inl by auto
    then obtain c m where e: "e = Logged c m" by (cases e) auto
    from 2(6) req Inl have "disciplined st1 cs" by simp
    with 2(1) [OF req [symmetric] Inl 2(4)] 2(5) st1 obtain st' where "run st1 cs = Some st'" "capacity_inv n st'"
      by auto
    with req Inl e show ?thesis by simp
  next
    case (Inr r)
    with 2(6) req obtain c cs' where cs: "cs = c # cs'" by (cases cs) auto
    show ?thesis
    proof (cases c)
      case (Hold_txn sid' r')
      with 2(6) req Inr cs have sid': "sid' = sid" and d: "disciplined (hold_txn sid' r' st1) cs'"
        by auto
      have "capacity_inv n (hold_txn sid' r' st1)"
        using request_hold_inv [OF 2(5)] req Inr sid' by simp
      with 2(2) [OF req [symmetric] Inr cs Hold_txn 2(4)] d
      obtain st' where "run (hold_txn sid' r' st1) cs' = Some st'" "capacity_inv n st'" by auto
      with req Inr cs Hold_txn show ?thesis by simp
    next
      case (Release_txn_record r')
      with 2(6) req Inr cs have d: "disciplined (release_txn_record r' st1) cs'" by auto
      have "capacity_inv n (release_txn_record r' st1)"
        using request_release_record_inv [OF 2(5)] req Inr by simp
      with 2(3) [OF req [symmetric] Inr cs Release_txn_record 2(4)] d
      obtain st' where "run (release_txn_record r' st1) cs' = Some st'" "capacity_inv n st'" by auto
      with req Inr cs Release_txn_record show ?thesis by simp
    qed (use 2(6) req Inr cs in auto)
  qed
next
  case (3 st sid now cs)
  then show ?case using continue_txn_inv by auto
next
  case (4 st sid running cs)
  then show ?case using hold_present_inv by auto
next
  case (5 st sid cs)
  then show ?case using release_txn_inv by auto
next
  case (6 st running cs)
  then show ?case by simp
qed

text \<open>
  Claim C2, amended. On a session manager of capacity \<open>n > 0\<close>, every sequence of
  calls that follows the discipline of \<open>disciplined\<close> runs without dereferencing the
  past-the-end iterator, and at its end the size of each free stack plus the size of
  the session map is \<open>n\<close>.
\<close>

theorem disciplined_capacity:
  assumes "0 < n" and "disciplined (sessions_init n) cs"
  shows "\<exists>st. run (sessions_init n) cs = Some st
           \<and> length (free_txns st) + length (client_to_txn st) = n
           \<and> length (free_arenas st) + length (client_to_txn st) = n"
  using disciplined_run [OF assms(1) sessions_init_inv assms(2)]
  by (auto simp: capacity_inv_def)

theorem disciplined_capacity_witness:
  "(0::nat) < 1
   \<and> disciplined (sessions_init 1)
       [Request_txn \<lparr>client_id = 1, txn_id = 7\<rparr> 0,
        Hold_txn \<lparr>client_id = 1, txn_id = 7\<rparr>
          \<lparr>txn = 3, arena = 0, last_access = 0, executing = True\<rparr>,
        Continue_txn \<lparr>client_id = 1, txn_id = 7\<rparr> 5,
        Hold_txn \<lparr>client_id = 1, txn_id = 7\<rparr>
          \<lparr>txn = 3, arena = 4, last_access = 9, executing = True\<rparr>,
        Release_txn \<lparr>client_id = 1, txn_id = 7\<rparr>]
   \<and> (\<exists>st. run (sessions_init 1)
       [Request_txn \<lparr>client_id = 1, txn_id = 7\<rparr> 0,
        Hold_txn \<lparr>client_id = 1, txn_id = 7\<rparr>
          \<lparr>txn = 3, arena = 0, last_access = 0, executing = True\<rparr>,
        Continue_txn \<lparr>client_id = 1, txn_id = 7\<rparr> 5,
        Hold_txn \<lparr>client_id = 1, txn_id = 7\<rparr>
          \<lparr>txn = 3, arena = 4, last_access = 9, executing = True\<rparr>,
        Release_txn \<lparr>client_id = 1, txn_id = 7\<rparr>] = Some st
       \<and> length (free_txns st) + length (client_to_txn st) = 1
       \<and> length (free_arenas st) + length (client_to_txn st) = 1)"
proof -
  have d: "disciplined (sessions_init 1)
       [Request_txn \<lparr>client_id = 1, txn_id = 7\<rparr> 0,
        Hold_txn \<lparr>client_id = 1, txn_id = 7\<rparr>
          \<lparr>txn = 3, arena = 0, last_access = 0, executing = True\<rparr>,
        Continue_txn \<lparr>client_id = 1, txn_id = 7\<rparr> 5,
        Hold_txn \<lparr>client_id = 1, txn_id = 7\<rparr>
          \<lparr>txn = 3, arena = 4, last_access = 9, executing = True\<rparr>,
        Release_txn \<lparr>client_id = 1, txn_id = 7\<rparr>]"
    by (simp add: session_defs)
  have p: "(0::nat) < 1" by simp
  from disciplined_capacity [OF p d] d show ?thesis by simp
qed

text \<open>
  When the engine fails to initialise the transaction, the \<open>txn_begin\<close> action
  releases by session id a session that is not in the map yet: nothing is released,
  and the two handles that \<open>request_txn\<close> took from the free stacks are lost.
\<close>

lemma txn_begin_failure_leaks:
  "DoAction_txn_begin
     \<lparr>session_id = \<lparr>client_id = 1, txn_id = 7\<rparr>, transaction_id = Some (View ''7'')\<rparr>
     42 (Some ''init failed'') 0 0 (sessions_init 1) =
   Some ((ExecutionError ''init failed'', None),
         \<lparr>free_arenas = [], free_txns = [], client_to_txn = [],
          milliseconds_timeout = 30000\<rparr>)"
  by (simp add: DoAction_txn_begin_def session_defs)

section \<open>Properties of the URI parameters\<close>

lemmas parse_defs =
  session_params_def find_char_def param_value_def kParamTransactionID_def parse_txn_id_def
  parse_u64_hex_def strtoull16_def isspace_def is_xdigit_def hex_digit_def Let_def

text \<open>The three look-ups of the spec in \<open>?a=1&bc=2\<close>.\<close>

lemma param_value_examples:
  "param_value ''?a=1&bc=2'' ''a'' = Inr (Some (View ''1''))"
  "param_value ''?a=1&bc=2'' ''bc'' = Inr (Some (View ''2''))"
  "param_value ''?a=1&bc=2'' ''b'' = Inr None"
  by (simp_all add: param_value_def)

text \<open>
  Claim C3 (the code at the failing inputs). A name that ends the query is matched
  whatever precedes it, because \<open>is_suffix\<close> is tested before the previous
  character: \<open>c\<close> is found in \<open>?a=1&bc\<close> and \<open>bc\<close> in \<open>?abc\<close>, where they occur
  only as the end of the larger keys \<open>bc\<close> and \<open>abc\<close>, and the flag \<open>flush\<close> is
  found in \<open>?col=x&dont_flush\<close>.
\<close>

theorem param_value_matches_suffix_of_larger_key:
  "param_value ''?a=1&bc'' ''c'' = Inr (Some Null_view)
   \<and> param_value ''?abc'' ''bc'' = Inr (Some Null_view)
   \<and> param_value ''?col=x&dont_flush'' ''flush'' = Inr (Some Null_view)"
  by (simp add: param_value_def)

lemma search_le: "search xs pat \<le> length xs"
  by (induction xs) auto

lemma search_found: "search xs pat < length xs \<Longrightarrow> prefix pat (drop (search xs pat) xs)"
  by (induction xs) (auto split: if_splits)

lemma param_value_from_Some:
  "param_value_from q k s = Inr (Some v) \<Longrightarrow> \<exists>i\<ge>s. matched_at q k i v"
proof (induction q k s rule: param_value_from.induct)
  case (1 q k s)
  note param_value_from.simps [simp del]
  define kb where "kb = s + search (drop s q) k"
  have kb_ge: "s \<le> kb" by (simp add: kb_def)
  have body0: "param_value_from q k s =
      (if length q \<le> kb then Inr None
       else if kb + length k = length q then Inr (Some Null_view)
       else if kb = 0 then Inl Out_of_bounds
       else if q ! (kb - 1) \<noteq> CHR ''?'' \<and> q ! (kb - 1) \<noteq> CHR ''&''
               \<and> q ! (kb - 1) \<noteq> CHR ''/''
       then param_value_from q k (kb + 1)
       else if q ! (kb + length k) = CHR ''&'' then Inr (Some Null_view)
       else if q ! (kb + length k) = CHR ''=''
       then Inr (Some (View (takeWhile (\<lambda>c. c \<noteq> CHR ''&'') (drop (kb + length k + 1) q))))
       else param_value_from q k (kb + 1))"
    unfolding kb_def by (subst param_value_from.simps) (simp only: Let_def)
  from "1.prems" have nend: "\<not> length q \<le> kb"
    unfolding body0 by (auto split: if_splits)
  then have "search (drop s q) k < length (drop s q)" by (simp add: kb_def)
  from search_found [OF this] have pre: "prefix k (drop kb q)"
    by (simp add: kb_def add.commute)
  show ?case
  proof (cases "kb + length k = length q")
    case True
    with "1.prems" nend have "v = Null_view"
      unfolding body0 by simp
    with True nend pre kb_ge show ?thesis
      by (auto simp: matched_at_def intro!: exI [of _ kb])
  next
    case False
    from "1.prems" nend False have k0: "kb \<noteq> 0"
      unfolding body0 by (auto split: if_splits)
    define prev where "prev = q ! (kb - 1)"
    define nxt where "nxt = q ! (kb + length k)"
    have unfold: "param_value_from q k s =
      (if prev \<noteq> CHR ''?'' \<and> prev \<noteq> CHR ''&'' \<and> prev \<noteq> CHR ''/''
       then param_value_from q k (kb + 1)
       else if nxt = CHR ''&'' then Inr (Some Null_view)
       else if nxt = CHR ''=''
       then Inr (Some (View (takeWhile (\<lambda>c. c \<noteq> CHR ''&'') (drop (kb + length k + 1) q))))
       else param_value_from q k (kb + 1))"
      unfolding body0 prev_def nxt_def using nend False k0 by (simp only: if_False)
    show ?thesis
    proof (cases "prev \<noteq> CHR ''?'' \<and> prev \<noteq> CHR ''&'' \<and> prev \<noteq> CHR ''/''")
      case True
      with unfold "1.prems" have r: "param_value_from q k (kb + 1) = Inr (Some v)" by simp
      from True have "q ! (kb - 1) \<noteq> CHR ''?'' \<and> q ! (kb - 1) \<noteq> CHR ''&''
          \<and> q ! (kb - 1) \<noteq> CHR ''/''" by (simp add: prev_def)
      from "1.IH"(1) [OF kb_def nend False k0 refl this r]
      obtain i where "kb + 1 \<le> i" "matched_at q k i v" by blast
      with kb_ge show ?thesis by (auto intro!: exI [of _ i])
    next
      case prev_ok: False
      show ?thesis
      proof (cases "nxt = CHR ''&''")
        case True
        with unfold prev_ok "1.prems" have "v = Null_view" by simp
        with True prev_ok nend pre kb_ge k0 show ?thesis
          by (auto simp: matched_at_def prev_def nxt_def intro!: exI [of _ kb])
      next
        case namp: False
        show ?thesis
        proof (cases "nxt = CHR ''=''")
          case True
          with unfold prev_ok namp "1.prems"
          have "v = View (takeWhile (\<lambda>c. c \<noteq> CHR ''&'') (drop (kb + length k + 1) q))"
            by simp
          with True prev_ok nend pre kb_ge k0 show ?thesis
            by (auto simp: matched_at_def prev_def nxt_def intro!: exI [of _ kb])
        next
          case False
          with unfold prev_ok namp "1.prems"
          have r: "param_value_from q k (kb + 1) = Inr (Some v)" by simp
          from prev_ok have p: "\<not> (q ! (kb - 1) \<noteq> CHR ''?'' \<and> q ! (kb - 1) \<noteq> CHR ''&''
              \<and> q ! (kb - 1) \<noteq> CHR ''/'')" by (simp add: prev_def)
          from namp have a: "q ! (kb + length k) \<noteq> CHR ''&''" by (simp add: nxt_def)
          from False have e: "q ! (kb + length k) \<noteq> CHR ''=''" by (simp add: nxt_def)
          from "1.IH"(2) [OF kb_def nend \<open>kb + length k \<noteq> length q\<close> k0 refl p refl a e r]
          obtain i where "kb + 1 \<le> i" "matched_at q k i v" by blast
          with kb_ge show ?thesis by (auto intro!: exI [of _ i])
        qed
      qed
    qed
  qed
qed

text \<open>
  Every match that \<open>param_value\<close> reports is of one of the two kinds of
  \<open>matched_at\<close>: only a name at the very end of the query is accepted without a
  look at the character before it.
\<close>

lemma param_value_match:
  "param_value q k = Inr (Some v) \<Longrightarrow> \<exists>i. matched_at q k i v"
  using param_value_from_Some [of q k 0 v] by (auto simp: param_value_def)

lemma is_query_txn_begin:
  "is_query ''txn_begin?txn=zzzzzzzzzzzzzzzz'' kFlightTxnBegin"
  by (simp add: is_query_def kFlightTxnBegin_def)

text \<open>
  Claim C6, as stated, fails: the request \<open>txn_begin?txn=zzzzzzzzzzzzzzzz\<close>, whose
  identifier has 16 characters none of which is a hexadecimal digit, is not refused.
  \<open>session_params\<close> reads the identifier as 0, and on a fresh session manager the
  action succeeds, answers the identifier 0 and leaves a session of that identifier
  in the map.
\<close>

theorem unparseable_txn_id_counterexample:
  "session_params 1 ''txn_begin?txn=zzzzzzzzzzzzzzzz'' =
     Inr \<lparr>session_id = \<lparr>client_id = 1, txn_id = 0\<rparr>,
          transaction_id = Some (View ''zzzzzzzzzzzzzzzz'')\<rparr>
   \<and> DoAction_txn_begin
       \<lparr>session_id = \<lparr>client_id = 1, txn_id = 0\<rparr>,
        transaction_id = Some (View ''zzzzzzzzzzzzzzzz'')\<rparr> 42 None 3 0 (sessions_init 1) =
     Some ((OK, Some 0),
           \<lparr>free_arenas = [], free_txns = [],
            client_to_txn = [(\<lparr>client_id = 1, txn_id = 0\<rparr>,
               \<lparr>txn = 3, arena = 0, last_access = 0, executing = False\<rparr>)],
            milliseconds_timeout = 30000\<rparr>)"
  by (simp add: parse_defs DoAction_txn_begin_def session_defs)

text \<open>
  Claim C6, amended. When the command carries a \<open>txn\<close> parameter with a value that
  \<open>strtoull\<close> in base 16 does not consume to its end, \<open>session_params\<close> gives the
  session the transaction identifier 0 and keeps the text of the parameter; the
  \<open>txn_commit\<close> and \<open>txn_begin\<close> actions then run for the identifier 0 and never
  answer with an invalid-argument status.
\<close>

theorem unparseable_txn_id_reads_as_zero:
  assumes "find_char CHR ''?'' uri = Some params_offs"
    and "param_value (drop params_offs uri) kParamTransactionID = Inr (Some (View v))"
    and "snd (strtoull16 v) \<noteq> length v"
  shows "session_params client uri =
           Inr \<lparr>session_id = \<lparr>client_id = client, txn_id = 0\<rparr>,
                transaction_id = Some (View v)\<rparr>
     \<and> (\<forall>m. fst (fst (DoAction_txn_commit
                 \<lparr>session_id = \<lparr>client_id = client, txn_id = 0\<rparr>,
                  transaction_id = Some (View v)\<rparr>
                 commit_error now st)) \<noteq> Invalid m)
     \<and> (\<forall>res m. DoAction_txn_begin
                 \<lparr>session_id = \<lparr>client_id = client, txn_id = 0\<rparr>,
                  transaction_id = Some (View v)\<rparr>
                 rand_value init_error init_txn now st = Some res
               \<longrightarrow> fst (fst res) \<noteq> Invalid m)"
proof -
  from assms have "session_params client uri =
           Inr \<lparr>session_id = \<lparr>client_id = client, txn_id = 0\<rparr>,
                transaction_id = Some (View v)\<rparr>"
    by (auto simp: session_params_def parse_txn_id_def parse_u64_hex_def split: prod.splits)
  moreover have "\<forall>m. fst (fst (DoAction_txn_commit
                 \<lparr>session_id = \<lparr>client_id = client, txn_id = 0\<rparr>,
                  transaction_id = Some (View v)\<rparr>
                 commit_error now st)) \<noteq> Invalid m"
    by (simp add: DoAction_txn_commit_def split: prod.splits sum.splits option.splits)
  moreover have "\<forall>res m. DoAction_txn_begin
                 \<lparr>session_id = \<lparr>client_id = client, txn_id = 0\<rparr>,
                  transaction_id = Some (View v)\<rparr>
                 rand_value init_error init_txn now st = Some res
               \<longrightarrow> fst (fst res) \<noteq> Invalid m"
    by (auto simp: DoAction_txn_begin_def Let_def
        split: prod.splits sum.splits option.splits failure.splits)
  ultimately show ?thesis by blast
qed

theorem unparseable_txn_id_reads_as_zero_witness:
  "find_char CHR ''?'' ''txn_commit?txn=12zz'' = Some 10
   \<and> param_value (drop 10 ''txn_commit?txn=12zz'') kParamTransactionID =
       Inr (Some (View ''12zz''))
   \<and> snd (strtoull16 ''12zz'') \<noteq> length ''12zz''
   \<and> session_params 1 ''txn_commit?txn=12zz'' =
       Inr \<lparr>session_id = \<lparr>client_id = 1, txn_id = 0\<rparr>,
            transaction_id = Some (View ''12zz'')\<rparr>
   \<and> fst (fst (DoAction_txn_commit
         \<lparr>session_id = \<lparr>client_id = 1, txn_id = 0\<rparr>, transaction_id = Some (View ''12zz'')\<rparr>
         None 5 (sessions_init 1))) \<noteq> Invalid ''Missing transaction ID argument''"
proof -
  have 1: "find_char CHR ''?'' ''txn_commit?txn=12zz'' = Some 10"
    by (simp add: find_char_def)
  have 2: "param_value (drop 10 ''txn_commit?txn=12zz'') kParamTransactionID =
      Inr (Some (View ''12zz''))"
    by (simp add: param_value_def kParamTransactionID_def)
  have 3: "snd (strtoull16 ''12zz'') \<noteq> length ''12zz''"
    by (simp add: strtoull16_def isspace_def is_xdigit_def hex_digit_def Let_def)
  from unparseable_txn_id_reads_as_zero [OF 1 2 3, of 1 None 5 "sessions_init 1"] 1 2 3
  show ?thesis by blast
qed

text \<open>
  Identifiers that \<open>strtoull\<close> accepts are taken as they are read, whatever their
  length and the case of their digits.
\<close>

lemma parse_txn_id_examples:
  "parse_txn_id (View ''00000000deadbeef'') = Inr 0xdeadbeef"
  "parse_txn_id (View ''DEADBEEF'') = Inr 0xdeadbeef"
  "parse_txn_id (View ''0x1F'') = Inr 31"
  "parse_txn_id (View []) = Inr 0"
  "parse_txn_id Null_view = Inl Null_pointer"
  by (simp_all add: parse_defs)

section \<open>Properties of the columnar export\<close>

lemma replicate_two: "replicate 2 x = [x, x]"
  by (simp add: numeral_2_eq_2)

lemmas export_defs =
  DoExchange_scan_def ustore_to_arrow_schema_def ustore_to_arrow_column_def
  ustore_to_arrow_list_def kArgKeys_def ustore_doc_field_ustore_key_t_def Let_def
  replicate_two ARROW_FLAG_NULLABLE_def

lemma sint_ucast_32_64: "sint (ucast (w :: 32 word) :: 64 word) = uint w"
proof -
  have u: "uint (ucast w :: 64 word) = uint w"
    by (simp add: unsigned_ucast_eq take_bit_int_eq_self_iff)
      (use uint_lt2p [of w] in simp)
  have lt: "uint w < 2 ^ 63" using uint_lt2p [of w] by simp
  have ge: "- (2 ^ 63) \<le> uint w"
  proof -
    have "(0::int) \<le> uint w" by simp
    moreover have "- (2 ^ 63) \<le> (0::int)" by simp
    ultimately show ?thesis by (rule order_trans [rotated])
  qed
  have "signed_take_bit 63 (uint w) = uint w"
    by (rule signed_take_bit_int_eq_self [OF ge lt])
  with u show ?thesis by (simp add: sint_uint)
qed

lemma schema_Inr:
  "ustore_to_arrow_schema docs_count fields_count mallocs = Inr (schema, array) \<Longrightarrow>
     schema = ArrowSchema ''+s'' [] 0 0 (sint fields_count)
                (replicate (unat fields_count) None) 0 release_malloced_schema
     \<and> array = ArrowArray (sint docs_count) 0 0 1 (sint fields_count) [0]
                (replicate (unat fields_count) None) 0 release_malloced_array"
  by (cases mallocs) (simp_all add: ustore_to_arrow_schema_def)

lemma column_Inr:
  assumes "ustore_to_arrow_column docs_count field_name field_type validities offsets contents
             column_ok = Inr (schema, array)"
  shows "schema = ArrowSchema (ustore_doc_field_type_to_arrow_format field_type) field_name 0
                    (if validities \<noteq> 0 then ARROW_FLAG_NULLABLE else 0) 0 [] 0
                    release_malloced_schema"
    and "length' array = sint docs_count"
    and "null_count array = (if validities \<noteq> 0 then - 1 else 0)"
    and "buffers array = (if column_n_buffers field_type = 2 then [validities, contents]
                          else [validities, offsets, contents])"
    and "n_buffers array = column_n_buffers field_type"
    and "offset array = 0" and "n_children' array = 0" and "children' array = []"
    and "dictionary' array = 0" and "release' array = release_malloced_array"
proof -
  from assms have ok: "column_ok"
    and n: "column_n_buffers field_type = 2 \<or> column_n_buffers field_type = 3"
    by (simp_all add: ustore_to_arrow_column_def Let_def split: if_splits)
  from n assms show "schema = ArrowSchema (ustore_doc_field_type_to_arrow_format field_type)
                    field_name 0 (if validities \<noteq> 0 then ARROW_FLAG_NULLABLE else 0) 0 [] 0
                    release_malloced_schema"
    and "length' array = sint docs_count"
    and "null_count array = (if validities \<noteq> 0 then - 1 else 0)"
    and "buffers array = (if column_n_buffers field_type = 2 then [validities, contents]
                          else [validities, offsets, contents])"
    and "n_buffers array = column_n_buffers field_type"
    and "offset array = 0" and "n_children' array = 0" and "children' array = []"
    and "dictionary' array = 0" and "release' array = release_malloced_array"
    unfolding ustore_to_arrow_column_def Let_def
    by (elim disjE; simp add: ok; fastforce)+
qed

lemma list_Inr:
  assumes "ustore_to_arrow_list docs_count field_name field_type validities offsets offsets_at
             contents mallocs buffers_ok column_ok = Inr (schema, array)"
  shows "\<exists>child_schema child_array.
           ustore_to_arrow_column (ucast (offsets_at (unat docs_count))) ''chunks'' field_type
             0 0 contents column_ok = Inr (child_schema, child_array)
           \<and> schema = ArrowSchema ''+l'' field_name 0
                (if validities \<noteq> 0 then ARROW_FLAG_NULLABLE else 0) 1 [Some child_schema] 0
                release_malloced_schema
           \<and> array = ArrowArray (sint docs_count) (if validities \<noteq> 0 then - 1 else 0) 0 2 1
                [validities, offsets] [Some child_array] 0 release_malloced_array"
proof -
  from assms obtain s0 a0 where s: "ustore_to_arrow_schema docs_count 1 mallocs = Inr (s0, a0)"
    by (auto simp: ustore_to_arrow_list_def split: sum.splits)
  note s0 = schema_Inr [OF s]
  from assms s obtain cs ca where
    c: "ustore_to_arrow_column (ucast (offsets_at (unat docs_count))) ''chunks'' field_type
          0 0 contents column_ok = Inr (cs, ca)"
    by (auto simp: ustore_to_arrow_list_def split: sum.splits if_splits)
  from assms s c s0 have "schema = ArrowSchema ''+l'' field_name 0
                (if validities \<noteq> 0 then ARROW_FLAG_NULLABLE else 0) 1 [Some cs] 0
                release_malloced_schema
           \<and> array = ArrowArray (sint docs_count) (if validities \<noteq> 0 then - 1 else 0) 0 2 1
                [validities, offsets] [Some ca] 0 release_malloced_array"
    by (simp add: ustore_to_arrow_list_def split: if_splits)
  with c show ?thesis by blast
qed

text \<open>
  What the export functions produce when every allocation succeeds. A column has a
  result for the types with 2 or 3 buffers; for \<open>ustore_doc_field_null_k\<close> the
  function writes three pointers into an array of no pointers.
\<close>

lemma schema_produces:
  "ustore_to_arrow_schema docs_count fields_count All_allocated =
     Inr (ArrowSchema ''+s'' [] 0 0 (sint fields_count)
            (replicate (unat fields_count) None) 0 release_malloced_schema,
          ArrowArray (sint docs_count) 0 0 1 (sint fields_count) [0]
            (replicate (unat fields_count) None) 0 release_malloced_array)"
  by (simp add: ustore_to_arrow_schema_def)

lemma column_produces:
  assumes "column_n_buffers field_type = 2 \<or> column_n_buffers field_type = 3"
  shows "ustore_to_arrow_column docs_count field_name field_type validities offsets contents
           True =
         Inr (ArrowSchema (ustore_doc_field_type_to_arrow_format field_type) field_name 0
                (if validities \<noteq> 0 then ARROW_FLAG_NULLABLE else 0) 0 [] 0
                release_malloced_schema,
              ArrowArray (sint docs_count) (if validities \<noteq> 0 then - 1 else 0) 0
                (column_n_buffers field_type) 0
                (if column_n_buffers field_type = 2 then [validities, contents]
                 else [validities, offsets, contents])
                [] 0 release_malloced_array)"
  using assms by (auto simp: ustore_to_arrow_column_def Let_def)

lemma list_produces:
  assumes "offsets \<noteq> 0"
    and "column_n_buffers field_type = 2 \<or> column_n_buffers field_type = 3"
  shows "ustore_to_arrow_list docs_count field_name field_type validities offsets offsets_at
           contents All_allocated True True =
         Inr (ArrowSchema ''+l'' field_name 0
                (if validities \<noteq> 0 then ARROW_FLAG_NULLABLE else 0) 1
                [Some (ArrowSchema (ustore_doc_field_type_to_arrow_format field_type)
                         ''chunks'' 0 0 0 [] 0 release_malloced_schema)]
                0 release_malloced_schema,
              ArrowArray (sint docs_count) (if validities \<noteq> 0 then - 1 else 0) 0 2 1
                [validities, offsets]
                [Some (ArrowArray (uint (offsets_at (unat docs_count))) 0 0
                         (column_n_buffers field_type) 0
                         (if column_n_buffers field_type = 2 then [0, contents]
                          else [0, 0, contents])
                         [] 0 release_malloced_array)]
                0 release_malloced_array)"
  using assms(1) column_produces [OF assms(2),
      of "ucast (offsets_at (unat docs_count))" "''chunks''" 0 0 contents]
  by (simp add: ustore_to_arrow_list_def schema_produces sint_ucast_32_64)

text \<open>Runs of the export functions on concrete columns.\<close>

lemma schema_example:
  "ustore_to_arrow_schema 3 2 All_allocated =
     Inr (ArrowSchema ''+s'' [] 0 0 2 [None, None] 0 release_malloced_schema,
          ArrowArray 3 0 0 1 2 [0] [None, None] 0 release_malloced_array)"
  by (simp add: export_defs)

lemma column_example:
  "ustore_to_arrow_column 3 ''vals'' ustore_doc_field_bin_k 500 600 700 True =
     Inr (ArrowSchema ''z'' ''vals'' 0 2 0 [] 0 release_malloced_schema,
          ArrowArray 3 (- 1) 0 3 0 [500, 600, 700] [] 0 release_malloced_array)"
  "ustore_to_arrow_column 3 ''keys'' ustore_doc_field_i64_k 0 0 700 True =
     Inr (ArrowSchema ''l'' ''keys'' 0 0 0 [] 0 release_malloced_schema,
          ArrowArray 3 0 0 2 0 [0, 700] [] 0 release_malloced_array)"
  by (simp_all add: export_defs)

lemma list_example:
  "ustore_to_arrow_list 2 ''lists'' ustore_doc_field_i32_k 500 600 (\<lambda>i. [0, 1, 4] ! i) 700
       All_allocated True True =
     Inr (ArrowSchema ''+l'' ''lists'' 0 2 1
            [Some (ArrowSchema ''i'' ''chunks'' 0 0 0 [] 0 release_malloced_schema)] 0
            release_malloced_schema,
          ArrowArray 2 (- 1) 0 2 1 [500, 600]
            [Some (ArrowArray 4 0 0 2 0 [0, 700] [] 0 release_malloced_array)] 0
            release_malloced_array)"
  "ustore_to_arrow_list 2 ''lists'' ustore_doc_field_i32_k 0 600 (\<lambda>i. [0, 1, 4] ! i) 700
       All_allocated True True =
     Inr (ArrowSchema ''+l'' ''lists'' 0 0 1
            [Some (ArrowSchema ''i'' ''chunks'' 0 0 0 [] 0 release_malloced_schema)] 0
            release_malloced_schema,
          ArrowArray 2 0 0 2 1 [0, 600]
            [Some (ArrowArray 4 0 0 2 0 [0, 700] [] 0 release_malloced_array)] 0
            release_malloced_array)"
  by (simp_all add: export_defs)

lemma scan_example:
  "DoExchange_scan 100 200 1 None 300 (\<lambda>i. [0, 3] ! i) 400 All_allocated True True =
     Scan_batch
       (ArrowSchema ''+s'' [] 0 0 2
          [Some (ArrowSchema ''l'' ''keys'' 0 0 0 [] 0 release_malloced_schema),
           Some (ArrowSchema ''l'' ''offsets'' 0 0 0 [] 0 release_malloced_schema)]
          0 release_malloced_schema)
       (ArrowArray 3 0 0 1 2 [0]
          [Some (ArrowArray 3 0 0 2 0 [0, 400] [] 0 release_malloced_array),
           Some (ArrowArray 3 0 0 2 0 [0, 300] [] 0 release_malloced_array)]
          0 release_malloced_array)"
  by (simp add: export_defs)

text \<open>
  Claim C7. The format string of each column type is the one the spec lists:
  \<open>n\<close> for null, \<open>b\<close> for bool, \<open>c\<close>, \<open>s\<close>, \<open>i\<close>, \<open>l\<close> for the signed and
  \<open>C\<close>, \<open>S\<close>, \<open>I\<close>, \<open>L\<close> for the unsigned integers of 8 to 64 bits, \<open>e\<close>,
  \<open>f\<close>, \<open>g\<close> for the floats of 16 to 64 bits, \<open>z\<close> for binary, \<open>u\<close> for utf8
  and \<open>w:16\<close> for uuid. When its allocations succeed, \<open>ustore_to_arrow_schema\<close>
  produces a root schema of the format \<open>+s\<close>, \<open>ustore_to_arrow_list\<close> (for an
  offsets pointer that is not null and a type with 2 or 3 buffers) a list column of the
  format \<open>+l\<close>, and \<open>ustore_to_arrow_column\<close> (for a type with 2 or 3 buffers) a
  column of the format of its type; and every schema that one of the three functions
  produces, whatever the allocations, has that format.
\<close>

theorem format_strings:
  "ustore_doc_field_type_to_arrow_format ustore_doc_field_null_k = ''n''
   \<and> ustore_doc_field_type_to_arrow_format ustore_doc_field_bool_k = ''b''
   \<and> ustore_doc_field_type_to_arrow_format ustore_doc_field_i8_k = ''c''
   \<and> ustore_doc_field_type_to_arrow_format ustore_doc_field_i16_k = ''s''
   \<and> ustore_doc_field_type_to_arrow_format ustore_doc_field_i32_k = ''i''
   \<and> ustore_doc_field_type_to_arrow_format ustore_doc_field_i64_k = ''l''
   \<and> ustore_doc_field_type_to_arrow_format ustore_doc_field_u8_k = ''C''
   \<and> ustore_doc_field_type_to_arrow_format ustore_doc_field_u16_k = ''S''
   \<and> ustore_doc_field_type_to_arrow_format ustore_doc_field_u32_k = ''I''
   \<and> ustore_doc_field_type_to_arrow_format ustore_doc_field_u64_k = ''L''
   \<and> ustore_doc_field_type_to_arrow_format ustore_doc_field_f16_k = ''e''
   \<and> ustore_doc_field_type_to_arrow_format ustore_doc_field_f32_k = ''f''
   \<and> ustore_doc_field_type_to_arrow_format ustore_doc_field_f64_k = ''g''
   \<and> ustore_doc_field_type_to_arrow_format ustore_doc_field_bin_k = ''z''
   \<and> ustore_doc_field_type_to_arrow_format ustore_doc_field_str_k = ''u''
   \<and> ustore_doc_field_type_to_arrow_format ustore_doc_field_uuid_k = ''w:16''
   \<and> (\<exists>schema array.
         ustore_to_arrow_schema docs_count fields_count All_allocated = Inr (schema, array)
         \<and> format schema = ''+s'')
   \<and> (\<forall>mallocs schema array.
         ustore_to_arrow_schema docs_count fields_count mallocs = Inr (schema, array)
         \<longrightarrow> format schema = ''+s'')
   \<and> (offsets \<noteq> 0
        \<and> (column_n_buffers field_type = 2 \<or> column_n_buffers field_type = 3)
       \<longrightarrow> (\<exists>schema array.
              ustore_to_arrow_list docs_count field_name field_type validities offsets
                offsets_at contents All_allocated True True = Inr (schema, array)
              \<and> format schema = ''+l''))
   \<and> (\<forall>mallocs buffers_ok column_ok schema array.
         ustore_to_arrow_list docs_count field_name field_type validities offsets
           offsets_at contents mallocs buffers_ok column_ok = Inr (schema, array)
         \<longrightarrow> format schema = ''+l'')
   \<and> (column_n_buffers field_type = 2 \<or> column_n_buffers field_type = 3
       \<longrightarrow> (\<exists>schema array.
              ustore_to_arrow_column docs_count field_name field_type validities offsets
                contents True = Inr (schema, array)
              \<and> format schema = ustore_doc_field_type_to_arrow_format field_type))
   \<and> (\<forall>column_ok schema array.
         ustore_to_arrow_column docs_count field_name field_type validities offsets
           contents column_ok = Inr (schema, array)
         \<longrightarrow> format schema = ustore_doc_field_type_to_arrow_format field_type)"
proof -
  have 1: "\<exists>schema array.
         ustore_to_arrow_schema docs_count fields_count All_allocated = Inr (schema, array)
         \<and> format schema = ''+s''"
    by (simp add: schema_produces)
  have 2: "\<forall>mallocs schema array.
         ustore_to_arrow_schema docs_count fields_count mallocs = Inr (schema, array)
         \<longrightarrow> format schema = ''+s''"
    by (auto dest: schema_Inr)
  have 3: "offsets \<noteq> 0
        \<and> (column_n_buffers field_type = 2 \<or> column_n_buffers field_type = 3)
       \<longrightarrow> (\<exists>schema array.
              ustore_to_arrow_list docs_count field_name field_type validities offsets
                offsets_at contents All_allocated True True = Inr (schema, array)
              \<and> format schema = ''+l'')"
    by (simp add: list_produces)
  have 4: "\<forall>mallocs buffers_ok column_ok schema array.
         ustore_to_arrow_list docs_count field_name field_type validities offsets
           offsets_at contents mallocs buffers_ok column_ok = Inr (schema, array)
         \<longrightarrow> format schema = ''+l''"
    by (auto dest!: list_Inr)
  have 5: "column_n_buffers field_type = 2 \<or> column_n_buffers field_type = 3
       \<longrightarrow> (\<exists>schema array.
              ustore_to_arrow_column docs_count field_name field_type validities offsets
                contents True = Inr (schema, array)
              \<and> format schema = ustore_doc_field_type_to_arrow_format field_type)"
    by (simp add: column_produces)
  have 6: "\<forall>column_ok schema array.
         ustore_to_arrow_column docs_count field_name field_type validities offsets
           contents column_ok = Inr (schema, array)
         \<longrightarrow> format schema = ustore_doc_field_type_to_arrow_format field_type"
    by (auto dest: column_Inr(1))
  from 1 2 3 4 5 6 show ?thesis
    by (simp only: ustore_doc_field_type_to_arrow_format.simps simp_thms)
qed

theorem format_strings_witness:
  "(600::nat) \<noteq> 0
   \<and> column_n_buffers ustore_doc_field_i32_k = 2
   \<and> (\<exists>schema array.
         ustore_to_arrow_schema 2 2 All_allocated = Inr (schema, array)
         \<and> format schema = ''+s'')
   \<and> (\<exists>schema array.
         ustore_to_arrow_list 2 ''lists'' ustore_doc_field_i32_k 500 600
           (\<lambda>i. [0, 1, 4] ! i) 700 All_allocated True True = Inr (schema, array)
         \<and> format schema = ''+l'')
   \<and> (\<exists>schema array.
         ustore_to_arrow_column 2 ''lists'' ustore_doc_field_i32_k 500 600 700 True =
           Inr (schema, array)
         \<and> format schema = ''i'')"
  using format_strings
    [where docs_count = 2 and fields_count = 2 and offsets = 600
       and field_type = ustore_doc_field_i32_k and field_name = "''lists''"
       and validities = 500 and offsets_at = "\<lambda>i. [0, 1, 4] ! i" and contents = 700]
  by simp



text \<open>
  Claim C9, as stated, fails: for one input row for which the engine finds 3 keys
  (offsets \<open>[0, 3]\<close>), the column \<open>offsets\<close> of the response is declared with the
  length 3, the number of keys, and not with \<open>N + 1 = 2\<close>.
\<close>

theorem scan_offsets_length_counterexample:
  "DoExchange_scan 100 200 1 None 300 (\<lambda>i. [0, 3] ! i) 400 All_allocated True True =
     Scan_batch
       (ArrowSchema ''+s'' [] 0 0 2
          [Some (ArrowSchema ''l'' ''keys'' 0 0 0 [] 0 release_malloced_schema),
           Some (ArrowSchema ''l'' ''offsets'' 0 0 0 [] 0 release_malloced_schema)]
          0 release_malloced_schema)
       (ArrowArray 3 0 0 1 2 [0]
          [Some (ArrowArray 3 0 0 2 0 [0, 400] [] 0 release_malloced_array),
           Some (ArrowArray 3 0 0 2 0 [0, 300] [] 0 release_malloced_array)]
          0 release_malloced_array)
   \<and> length' (ArrowArray 3 0 0 2 0 [0, 300] [] 0 release_malloced_array) \<noteq> 1 + 1"
  using scan_example by simp

text \<open>
  Claim C9, amended. The batch of every successful scan request with \<open>N\<close> input rows
  is a struct of exactly two columns, \<open>keys\<close> and \<open>offsets\<close>, both of type i64
  (format \<open>l\<close>), without validity buffer and with null count 0, and both declared
  with the length of the batch, which is the last offset \<open>found_offsets[N]\<close>: the
  total number of result keys. The contents buffer of \<open>keys\<close> is the engine's array
  of keys and that of \<open>offsets\<close> is the engine's array of offsets.
\<close>

theorem scan_batch_columns:
  assumes "DoExchange_scan input_start_keys input_lengths tasks_count scan_error
             found_offsets found_offsets_at found_keys mallocs keys_ok offsets_ok =
           Scan_batch schema batch"
  shows "format schema = ''+s'' \<and> n_children schema = 2 \<and> n_children' batch = 2
     \<and> length' batch = uint (found_offsets_at (unat tasks_count))
     \<and> children schema =
         [Some (ArrowSchema ''l'' ''keys'' 0 0 0 [] 0 release_malloced_schema),
          Some (ArrowSchema ''l'' ''offsets'' 0 0 0 [] 0 release_malloced_schema)]
     \<and> children' batch =
         [Some (ArrowArray (uint (found_offsets_at (unat tasks_count))) 0 0 2 0
                  [0, found_keys] [] 0 release_malloced_array),
          Some (ArrowArray (uint (found_offsets_at (unat tasks_count))) 0 0 2 0
                  [0, found_offsets] [] 0 release_malloced_array)]"
  using assms
  by (auto simp: export_defs export_status_def sint_ucast_32_64
      split: schema_alloc.splits sum.splits if_splits option.splits export_failure.splits)

theorem scan_batch_columns_witness:
  "children'
     (ArrowArray 3 0 0 1 2 [0]
          [Some (ArrowArray 3 0 0 2 0 [0, 400] [] 0 release_malloced_array),
           Some (ArrowArray 3 0 0 2 0 [0, 300] [] 0 release_malloced_array)]
          0 release_malloced_array) =
     [Some (ArrowArray (uint (([0, 3] :: 32 word list) ! unat (1 :: 64 word))) 0 0 2 0
              [0, 400] [] 0 release_malloced_array),
      Some (ArrowArray (uint (([0, 3] :: 32 word list) ! unat (1 :: 64 word))) 0 0 2 0
              [0, 300] [] 0 release_malloced_array)]"
  using scan_batch_columns [OF scan_example] by blast

end
